theory Spec2Isabelle
  imports Complex_Main
begin

chapter \<open>The transfer module (source/transfer.c)\<close>

text \<open>
  A shallow embedding of the grid planner, the Limber decision, the two integration
  routines and the selection-window normalisation of \<^verbatim>\<open>transfer.c\<close>.

  Conventions. A C \<^verbatim>\<open>double\<close> is a \<^typ>\<open>real\<close> (exact arithmetic: rounding, infinities and
  NaN are not modelled); a C \<^verbatim>\<open>int\<close> is an \<^typ>\<open>int\<close> (no overflow); an array is a list, read
  with \<open>xs ! nat i\<close>, and the theorems state the sizes under which every read is inside
  the array. A routine that returns \<^verbatim>\<open>_FAILURE_\<close> through \<^verbatim>\<open>class_test\<close>, \<^verbatim>\<open>class_stop\<close> or
  \<^verbatim>\<open>class_call\<close> returns \<open>Inl e\<close>; \<^verbatim>\<open>_SUCCESS_\<close> with its outputs is \<open>Inr v\<close>. Structure fields
  keep their names; a field name shared by two structures, or one letter long, carries
  the name of its structure pointer (\<open>ppt_k\<close>, \<open>ptr_q\<close>).
\<close>

section \<open>Data\<close>

datatype error =
    Buggy_q_list                \<comment> \<open>"buggy q-list definition"\<close>
  | L_max_exceeds_table         \<comment> \<open>"asked for l_max=... greater than in Bessel table"\<close>
  | K_min_below_perturbations   \<comment> \<open>"bug in k_list calculation: ... k_min"\<close>
  | K_max_above_perturbations   \<comment> \<open>"bug in k_list calculation: ... k_max"\<close>
  | Nu_not_integer              \<comment> \<open>"problem in q list definition in closed case"\<close>
  | Invalid_selection           \<comment> \<open>"invalid choice of selection function"\<close>
  | Callee_failed               \<comment> \<open>a routine of another module returned \<^verbatim>\<open>_FAILURE_\<close>\<close>

text \<open>The enumeration \<^verbatim>\<open>enum selection_type {gaussian,tophat,dirac}\<close>; a C enumeration can
  hold any other integer, which is \<open>other_selection\<close>.\<close>

datatype selection_type = gaussian | tophat | dirac | other_selection

record precision =
  l_switch_limber :: real
  l_switch_limber_for_cl_density_over_z :: real
  l_logstep :: real
  l_linstep :: int
  q_linstep :: real
  q_logstep_spline :: real
  q_logstep_open :: real
  q_logstep_trapzd :: real
  q_numstep_transition :: real
  hyper_flat_approximation_nu :: real
  selection_cut_at_sigma :: real
  selection_tophat_edge :: real
  selection_sampling :: real
  selection_sampling_bessel :: real

record perturbs =
  ppt_has_cls :: bool
  has_scalars :: bool
  has_vectors :: bool
  has_tensors :: bool
  index_md_scalars :: int
  index_md_vectors :: int
  index_md_tensors :: int
  ppt_md_size :: int
  has_cl_cmb_temperature :: bool
  has_cl_cmb_polarization :: bool
  has_cl_cmb_lensing_potential :: bool
  has_cl_density :: bool
  has_cl_lensing_potential :: bool
  l_scalar_max :: int
  l_lss_max :: int
  l_tensor_max :: int
  selection_num :: int
  selection :: selection_type
  selection_mean :: "real list"
  selection_width :: "real list"
  ppt_k :: "real list"
  k_size_cl :: int
  ppt_tau_size :: int
  tau_sampling :: "real list"

record transfers =
  ptr_has_cls :: bool
  ptr_md_size :: int
  index_tt_t0 :: int
  index_tt_t1 :: int
  index_tt_t2 :: int
  index_tt_e :: int
  index_tt_b :: int
  index_tt_lcmb :: int
  index_tt_density :: int
  index_tt_lensing :: int
  tt_size :: "int list"
  l_size_tt :: "int list list"
  l_size :: "int list"
  l_size_max :: int
  ptr_l :: "int list"
  ptr_q :: "real list"
  q_size :: int
  ptr_k :: "real list list"
  index_q_flat_approximation :: int
  angular_rescaling :: real
  transfer_verbose :: int

text \<open>The cast \<^verbatim>\<open>(int)x\<close> of a \<^verbatim>\<open>double\<close> truncates towards zero.\<close>

definition c_int :: "real \<Rightarrow> int" where
  "c_int x = (if 0 \<le> x then \<lfloor>x\<rfloor> else \<lceil>x\<rceil>)"

text \<open>The macros \<^verbatim>\<open>_scalars_\<close>, \<^verbatim>\<open>_vectors_\<close> and \<^verbatim>\<open>_tensors_\<close> of the perturbation module:
  the mode is requested and \<^verbatim>\<open>index_md\<close> is its index.\<close>

definition scalars :: "perturbs \<Rightarrow> int \<Rightarrow> bool" where
  "scalars ppt index_md \<longleftrightarrow> has_scalars ppt \<and> index_md = index_md_scalars ppt"

definition vectors :: "perturbs \<Rightarrow> int \<Rightarrow> bool" where
  "vectors ppt index_md \<longleftrightarrow> has_vectors ppt \<and> index_md = index_md_vectors ppt"

definition tensors :: "perturbs \<Rightarrow> int \<Rightarrow> bool" where
  "tensors ppt index_md \<longleftrightarrow> has_tensors ppt \<and> index_md = index_md_tensors ppt"

text \<open>The tests on \<^verbatim>\<open>index_tt\<close> that recur through the file: a temperature type of the
  scalar mode, the E polarisation type, the CMB lensing type, a number-count (density)
  type of some redshift bin, a galaxy-lensing type of some bin.\<close>

definition is_temperature :: "perturbs \<Rightarrow> transfers \<Rightarrow> int \<Rightarrow> bool" where
  "is_temperature ppt ptr index_tt \<longleftrightarrow>
     has_cl_cmb_temperature ppt
     \<and> (index_tt = index_tt_t0 ptr \<or> index_tt = index_tt_t1 ptr \<or> index_tt = index_tt_t2 ptr)"

definition is_polarization_e :: "perturbs \<Rightarrow> transfers \<Rightarrow> int \<Rightarrow> bool" where
  "is_polarization_e ppt ptr index_tt \<longleftrightarrow>
     has_cl_cmb_polarization ppt \<and> index_tt = index_tt_e ptr"

definition is_lcmb :: "perturbs \<Rightarrow> transfers \<Rightarrow> int \<Rightarrow> bool" where
  "is_lcmb ppt ptr index_tt \<longleftrightarrow>
     has_cl_cmb_lensing_potential ppt \<and> index_tt = index_tt_lcmb ptr"

definition is_density :: "perturbs \<Rightarrow> transfers \<Rightarrow> int \<Rightarrow> bool" where
  "is_density ppt ptr index_tt \<longleftrightarrow>
     has_cl_density ppt \<and> index_tt \<ge> index_tt_density ptr
     \<and> index_tt < index_tt_density ptr + selection_num ppt"

definition is_lensing :: "perturbs \<Rightarrow> transfers \<Rightarrow> int \<Rightarrow> bool" where
  "is_lensing ppt ptr index_tt \<longleftrightarrow>
     has_cl_lensing_potential ppt \<and> index_tt \<ge> index_tt_lensing ptr
     \<and> index_tt < index_tt_lensing ptr + selection_num ppt"

section \<open>The Limber decision: \<^verbatim>\<open>transfer_use_limber\<close>\<close>

text \<open>The routine always returns \<^verbatim>\<open>_SUCCESS_\<close>; the model returns \<^verbatim>\<open>*use_limber\<close>. The
  conjunctions are C's short-circuit \<^verbatim>\<open>&&\<close>: \<^verbatim>\<open>selection_mean\<close> is read only for an index
  inside \<open>0 ..< selection_num\<close>.\<close>

definition transfer_use_limber ::
  "precision \<Rightarrow> perturbs \<Rightarrow> transfers \<Rightarrow> real \<Rightarrow> int \<Rightarrow> int \<Rightarrow> real \<Rightarrow> real \<Rightarrow> bool" where
  "transfer_use_limber ppr ppt ptr q_max_bessel index_md index_tt q l =
     (if q > q_max_bessel then True
      else if scalars ppt index_md then
        (if has_cl_cmb_lensing_potential ppt \<and> index_tt = index_tt_lcmb ptr
            \<and> l > l_switch_limber ppr
         then True
         else if has_cl_density ppt \<and> index_tt \<ge> index_tt_density ptr
            \<and> index_tt < index_tt_density ptr + selection_num ppt
            \<and> l \<ge> l_switch_limber_for_cl_density_over_z ppr
                    * selection_mean ppt ! nat (index_tt - index_tt_density ptr)
         then selection ppt \<noteq> dirac
         else if has_cl_lensing_potential ppt \<and> index_tt \<ge> index_tt_lensing ptr
            \<and> index_tt < index_tt_lensing ptr + selection_num ppt
            \<and> l \<ge> l_switch_limber_for_cl_density_over_z ppr
                    * selection_mean ppt ! nat (index_tt - index_tt_lensing ptr)
         then True
         else False)
      else False)"


text \<open>The fields of the background and thermodynamics structures that the module reads.\<close>

record background =
  conformal_age :: real
  bg_K :: real
  sgnK :: int
  a_today :: real
  index_bg_a :: int
  index_bg_H :: int

record thermo =
  tau_rec :: real
  tau_cut :: real
  th_angular_rescaling :: real

section \<open>Skipping the module: \<^verbatim>\<open>transfer_init\<close> and \<^verbatim>\<open>transfer_free\<close>\<close>

text \<open>
  The effects of the two routines are a log: the blocks they allocate with
  \<^verbatim>\<open>class_alloc\<close> and release with \<^verbatim>\<open>free\<close>, named by the field of the transfer
  structure that points to them, and what they print.
\<close>

datatype block =
    Tt_size | L_size | L_size_tt | L_size_tt_row int | Transfer | Transfer_row int
  | Q_list | K_list | K_row int | L_list

datatype effect = Alloc block | Free block | Printf string

text \<open>
  \<^verbatim>\<open>transfer_init\<close> starts with the test of \<^verbatim>\<open>ppt->has_cls\<close>. When spectra are requested
  it records the flag, the number of modes and the angular rescaling, and goes on to
  \<^verbatim>\<open>transfer_indices_of_transfers\<close>, the splines of the sources and the loop over
  wavenumbers: that remainder, with the period \<^verbatim>\<open>q_period\<close> it is given, is the
  parameter \<open>rest\<close>.
\<close>

definition transfer_init ::
  "(real \<Rightarrow> transfers \<Rightarrow> (error + transfers) \<times> effect list) \<Rightarrow>
   background \<Rightarrow> thermo \<Rightarrow> perturbs \<Rightarrow> transfers \<Rightarrow> (error + transfers) \<times> effect list" where
  "transfer_init rest pba pth ppt ptr =
     (if \<not> ppt_has_cls ppt then
        (Inr (ptr\<lparr>ptr_has_cls := False\<rparr>),
         if transfer_verbose ptr > 0
         then [Printf ''No harmonic space transfer functions to compute. Transfer module skipped.'']
         else [])
      else
        (let ptr1 = ptr\<lparr>ptr_has_cls := True\<rparr>;
             out = (if transfer_verbose ptr1 > 0 then [Printf ''Computing transfers''] else []);
             ptr2 = ptr1\<lparr>ptr_md_size := ppt_md_size ppt\<rparr>;
             tau0 = conformal_age pba;
             ptr3 = ptr2\<lparr>angular_rescaling := th_angular_rescaling pth\<rparr>;
             q_period = 2 * pi / (tau0 - tau_rec pth) * angular_rescaling ptr3;
             (r, fx) = rest q_period ptr3
         in (r, out @ fx)))"

definition transfer_free :: "transfers \<Rightarrow> (error + unit) \<times> effect list" where
  "transfer_free ptr =
     (Inr (),
      if ptr_has_cls ptr then
        concat (map (\<lambda>index_md. [Free (L_size_tt_row index_md), Free (Transfer_row index_md),
                                 Free (K_row index_md)])
                    [0 .. ptr_md_size ptr - 1])
        @ [Free Tt_size, Free L_size_tt, Free L_size, Free L_list, Free Q_list, Free K_list,
           Free Transfer]
      else [])"

text \<open>Whether a log allocates or releases anything.\<close>

fun touches_memory :: "effect \<Rightarrow> bool" where
  "touches_memory (Alloc b) = True"
| "touches_memory (Free b) = True"
| "touches_memory (Printf s) = False"

section \<open>The wavenumber grid: \<^verbatim>\<open>transfer_get_q_list\<close>\<close>

subsection \<open>First and last value\<close>

text \<open>
  The first lines of the routine set \<^verbatim>\<open>q_min\<close> and \<^verbatim>\<open>q_max\<close> from the sign of the
  curvature (both start at zero and stay there for any other value of \<^verbatim>\<open>sgnK\<close>); the
  flat case also resets \<^verbatim>\<open>K\<close>. The result is \<open>(q_min, q_max, K)\<close>.
\<close>

definition q_list_bounds :: "perturbs \<Rightarrow> real \<Rightarrow> int \<Rightarrow> real \<times> real \<times> real" where
  "q_list_bounds ppt K sgn_K =
     (if sgn_K = 0 then
        (ppt_k ppt ! 0, ppt_k ppt ! nat (k_size_cl ppt - 1), 0)
      else if sgn_K = -1 then
        (let q_min = sqrt (ppt_k ppt ! 0 * ppt_k ppt ! 0 + K);
             k_max = ppt_k ppt ! nat (k_size_cl ppt - 1);
             q_max = sqrt (k_max * k_max + K);
             q_max = (if has_vectors ppt then min q_max (sqrt (k_max * k_max + 2 * K))
                      else q_max);
             q_max = (if has_tensors ppt then min q_max (sqrt (k_max * k_max + 3 * K))
                      else q_max)
         in (q_min, q_max, K))
      else if sgn_K = 1 then
        (let nu_min = 3 :: int;
             q_min = real_of_int nu_min * sqrt K;
             q_max = ppt_k ppt ! nat (k_size_cl ppt - 1)
         in (q_min, q_max, K))
      else (0, 0, K))"

subsection \<open>The conservative size of the array\<close>

definition q_list_size_max :: "precision \<Rightarrow> real \<Rightarrow> real \<Rightarrow> int \<Rightarrow> real \<Rightarrow> real \<Rightarrow> int" where
  "q_list_size_max ppr q_period K sgn_K q_min q_max =
     (if sgn_K = 1 then
        (let q_approximation = min (hyper_flat_approximation_nu ppr) (q_max / sqrt K);
             q_step = 1 + q_period * q_logstep_trapzd ppr;
             n = 2 * c_int (ln (q_approximation / q_min) / ln q_step);
             q_step = q_period * q_linstep ppr;
             n = n + 2 * c_int ((q_approximation - q_min) / q_step);
             q_step = 1 + q_period * q_logstep_spline ppr;
             n = n + 2 * c_int (ln (q_max / q_approximation) / ln q_step);
             q_step = q_period * q_linstep ppr;
             n = n + 2 * c_int ((q_max - q_approximation) / q_step)
         in n)
      else
        (let q_step = 1 + q_period * q_logstep_spline ppr;
             n = 2 * c_int (ln (q_max / q_min) / ln q_step);
             q_step = q_period * q_linstep ppr;
             n = n + 2 * c_int ((q_max - q_min) / q_step)
         in n))"

subsection \<open>One step of the loop\<close>

text \<open>
  The body of the loop computes the next value \<^verbatim>\<open>q\<close> from the last one,
  \<^verbatim>\<open>ptr->q[index_q-1]\<close>, and updates \<^verbatim>\<open>nu\<close>, \<^verbatim>\<open>last_step\<close> and \<^verbatim>\<open>last_index\<close>. The
  argument \<open>spline\<close> is the local \<^verbatim>\<open>q_logstep_spline\<close> (the precision parameter divided by
  a power of the angular rescaling), \<open>trapzd\<close> the local \<^verbatim>\<open>q_logstep_trapzd\<close>. The step
  formula that the three branches share,
  \<^verbatim>\<open>q_period * ppr->q_linstep * q / (q + ppr->q_linstep/logstep)\<close>, is \<open>q_list_step\<close>.
\<close>

definition q_list_step :: "precision \<Rightarrow> real \<Rightarrow> real \<Rightarrow> real \<Rightarrow> real" where
  "q_list_step ppr q_period logstep q_prev =
     q_period * q_linstep ppr * q_prev / (q_prev + q_linstep ppr / logstep)"

definition q_list_next ::
  "precision \<Rightarrow> real \<Rightarrow> real \<Rightarrow> int \<Rightarrow> real \<Rightarrow> real \<Rightarrow>
   real \<Rightarrow> int \<Rightarrow> int \<times> real \<times> int \<Rightarrow> real \<times> int \<times> real \<times> int" where
  "q_list_next ppr q_period K sgn_K spline trapzd q_prev index_q st =
     (case st of (nu, last_step, last_index) \<Rightarrow>
      if sgn_K \<le> 0 then
        (q_prev + q_list_step ppr q_period spline q_prev, nu, last_step, last_index)
      else if nu < c_int (hyper_flat_approximation_nu ppr) then
        (let q = q_prev + q_list_step ppr q_period trapzd q_prev;
             nu_proposed = c_int (q / sqrt K);
             nu = (if nu_proposed \<le> nu + 1 then nu + 1 else nu_proposed);
             q = real_of_int nu * sqrt K
         in (q, nu, q - q_prev, index_q + 1))
      else
        (let q_step = q_list_step ppr q_period spline q_prev;
             q = (if index_q - last_index < c_int (q_numstep_transition ppr)
                  then q_prev
                       + (1 - real_of_int (index_q - last_index) / q_numstep_transition ppr)
                         * last_step
                       + real_of_int (index_q - last_index) / q_numstep_transition ppr * q_step
                  else q_prev + q_step)
         in (q, nu, last_step, last_index)))"

subsection \<open>The loop\<close>

text \<open>
  The state of the loop is the filled part of the array, \<open>qs\<close> (so that \<^verbatim>\<open>index_q\<close> is
  its length and \<^verbatim>\<open>ptr->q[index_q-1]\<close> its last element), and the triple
  \<open>(nu, last_step, last_index)\<close>. The loop runs while the last value is below \<^verbatim>\<open>q_max\<close>;
  every pass first tests \<^verbatim>\<open>index_q >= q_size_max\<close>, which bounds the number of passes.
\<close>

function q_list_loop ::
  "precision \<Rightarrow> real \<Rightarrow> real \<Rightarrow> int \<Rightarrow> real \<Rightarrow> real \<Rightarrow> real \<Rightarrow> int \<Rightarrow>
   real list \<Rightarrow> int \<times> real \<times> int \<Rightarrow> error + real list" where
  "q_list_loop ppr q_period K sgn_K spline trapzd q_max q_size_max qs st =
     (if last qs < q_max then
        if int (length qs) \<ge> q_size_max then Inl Buggy_q_list
        else
          (case q_list_next ppr q_period K sgn_K spline trapzd (last qs) (int (length qs)) st of
             (q, st') \<Rightarrow>
               q_list_loop ppr q_period K sgn_K spline trapzd q_max q_size_max (qs @ [q]) st')
      else Inr qs)"
  by pat_completeness auto
termination
  by (relation "measure (\<lambda>(ppr, q_period, K, sgn_K, spline, trapzd, q_max, q_size_max, qs, st).
                   nat (q_size_max - int (length qs)))") auto



subsection \<open>Filling the array and fixing its size\<close>

text \<open>
  The array starts with \<^verbatim>\<open>q_min\<close> and \<^verbatim>\<open>nu = 3\<close>. After the loop the number of values is
  the index, or one less when the last value is above \<^verbatim>\<open>q_max\<close>; fewer than two values
  is an error; \<^verbatim>\<open>class_realloc\<close> keeps that many values.
\<close>

definition q_list_fill ::
  "precision \<Rightarrow> real \<Rightarrow> real \<Rightarrow> int \<Rightarrow> real \<Rightarrow> real \<Rightarrow> real \<Rightarrow> real \<Rightarrow> int \<Rightarrow>
   error + real list" where
  "q_list_fill ppr q_period K sgn_K spline trapzd q_min q_max q_size_max =
     (case q_list_loop ppr q_period K sgn_K spline trapzd q_max q_size_max [q_min] (3, 0, 0) of
        Inl e \<Rightarrow> Inl e
      | Inr qs \<Rightarrow>
          (let index_q = int (length qs);
               n_q = (if last qs > q_max then index_q - 1 else index_q)
           in if n_q < 2 then Inl Buggy_q_list else Inr (take (nat n_q) qs)))"

subsection \<open>Where the flat approximation starts\<close>

text \<open>The \<^verbatim>\<open>for\<close> loop that looks for the first value above \<^verbatim>\<open>q_approximation\<close>, from the
  index \<open>i\<close>; \<open>n\<close> counts the indices left below \<^verbatim>\<open>q_size-1\<close>.\<close>

fun flat_approximation_index :: "real list \<Rightarrow> real \<Rightarrow> nat \<Rightarrow> int \<Rightarrow> int" where
  "flat_approximation_index qs q_approximation 0 i = i"
| "flat_approximation_index qs q_approximation (Suc n) i =
     (if qs ! nat i > q_approximation then i
      else flat_approximation_index qs q_approximation n (i + 1))"

subsection \<open>The routine\<close>

definition transfer_get_q_list ::
  "precision \<Rightarrow> perturbs \<Rightarrow> transfers \<Rightarrow> real \<Rightarrow> real \<Rightarrow> int \<Rightarrow> error + transfers" where
  "transfer_get_q_list ppr ppt ptr q_period K sgn_K =
     (case q_list_bounds ppt K sgn_K of (q_min, q_max, K) \<Rightarrow>
      let spline = q_logstep_spline ppr / (angular_rescaling ptr powr q_logstep_open ppr);
          trapzd = q_logstep_trapzd ppr;
          q_size_max = q_list_size_max ppr q_period K sgn_K q_min q_max
      in case q_list_fill ppr q_period K sgn_K spline trapzd q_min q_max q_size_max of
           Inl e \<Rightarrow> Inl e
         | Inr qs \<Rightarrow>
             (let ptr = ptr\<lparr>ptr_q := qs, q_size := int (length qs)\<rparr>
              in if sgn_K \<noteq> 0 then
                   Inr (ptr\<lparr>index_q_flat_approximation :=
                          flat_approximation_index qs
                            (hyper_flat_approximation_nu ppr * sqrt (real_of_int sgn_K * K))
                            (nat (q_size ptr - 1)) 0\<rparr>)
                 else Inr ptr))"

subsection \<open>The overtone test of \<^verbatim>\<open>transfer_update_HIS\<close>\<close>

text \<open>
  When the table of hyperspherical functions is rebuilt for a wavenumber of a closed
  universe, \<^verbatim>\<open>nu = q/sqrt(K)\<close> is replaced by the integer \<^verbatim>\<open>(int)(nu+0.2)\<close> after the test
  \<^verbatim>\<open>class_test(nu-new_nu > 1.e-6, ...)\<close>. The result is the \<^verbatim>\<open>nu\<close> the table is built for.
\<close>

definition update_HIS_nu :: "real \<Rightarrow> real \<Rightarrow> int \<Rightarrow> error + real" where
  "update_HIS_nu q K sgn_K =
     (let sqrt_absK = sqrt (real_of_int sgn_K * K);
          nu = q / sqrt_absK
      in if sgn_K = 1 then
           (let int_nu = c_int (nu + 2/10);
                new_nu = real_of_int int_nu
            in if nu - new_nu > 1 / 10^6 then Inl Nu_not_integer else Inr new_nu)
         else Inr nu)"

section \<open>The wavenumbers of the sources: \<^verbatim>\<open>transfer_get_k_list\<close>\<close>

text \<open>
  The loop over the modes carries the local \<^verbatim>\<open>m\<close> from one mode to the next (it starts
  at zero, and a mode that is none of the three keeps the value of the previous one).
  Each mode gets its row \<^verbatim>\<open>ptr->k[index_md]\<close>, whose first and last element are tested
  against the first value and the value of index \<^verbatim>\<open>k_size_cl-1\<close> of the perturbation
  module's list.
\<close>

fun k_list_modes ::
  "perturbs \<Rightarrow> real list \<Rightarrow> int \<Rightarrow> real \<Rightarrow> int list \<Rightarrow> real \<Rightarrow> error + real list list" where
  "k_list_modes ppt qs n_q K [] m = Inr []"
| "k_list_modes ppt qs n_q K (index_md # mds) m =
     (let m = (if scalars ppt index_md then 0 else m);
          m = (if vectors ppt index_md then 1 else m);
          m = (if tensors ppt index_md then 2 else m);
          k_md = map (\<lambda>index_q. sqrt (qs ! index_q * qs ! index_q - K * (m + 1)))
                     [0 ..< nat n_q]
      in if k_md ! 0 < ppt_k ppt ! 0 then Inl K_min_below_perturbations
         else if k_md ! nat (n_q - 1) > ppt_k ppt ! nat (k_size_cl ppt - 1)
         then Inl K_max_above_perturbations
         else (case k_list_modes ppt qs n_q K mds m of
                 Inl e \<Rightarrow> Inl e
               | Inr ks \<Rightarrow> Inr (k_md # ks)))"

definition transfer_get_k_list :: "perturbs \<Rightarrow> transfers \<Rightarrow> real \<Rightarrow> error + transfers" where
  "transfer_get_k_list ppt ptr K =
     (case k_list_modes ppt (ptr_q ptr) (q_size ptr) K [0 .. ptr_md_size ptr - 1] 0 of
        Inl e \<Rightarrow> Inl e
      | Inr ks \<Rightarrow> Inr (ptr\<lparr>ptr_k := ks\<rparr>))"

text \<open>The spin the three tests leave in \<^verbatim>\<open>m\<close> for a mode that is one of the three.\<close>

definition mode_spin :: "perturbs \<Rightarrow> int \<Rightarrow> real" where
  "mode_spin ppt index_md =
     (if tensors ppt index_md then 2 else if vectors ppt index_md then 1 else 0)"

section \<open>The multipoles: \<^verbatim>\<open>transfer_get_l_list\<close>\<close>

subsection \<open>The largest multipole\<close>

definition l_list_l_max :: "perturbs \<Rightarrow> int" where
  "l_list_l_max ppt =
     (let l_max = 0 in
      if ppt_has_cls ppt then
        (let l_max =
               (if has_scalars ppt then
                  (let l_max = (if has_cl_cmb_temperature ppt \<or> has_cl_cmb_polarization ppt
                                   \<or> has_cl_cmb_lensing_potential ppt
                                then max (l_scalar_max ppt) l_max else l_max);
                       l_max = (if has_cl_lensing_potential ppt \<or> has_cl_density ppt
                                then max (l_lss_max ppt) l_max else l_max)
                   in l_max)
                else l_max);
             l_max = (if has_tensors ppt then max (l_tensor_max ppt) l_max else l_max)
         in l_max)
      else l_max)"

subsection \<open>The two steps\<close>

text \<open>
  The logarithmic increment at the multipole \<^verbatim>\<open>current_l\<close>,
  \<^verbatim>\<open>MAX((int)(current_l * (pow(l_logstep,angular_rescaling)-1.)),1)\<close>, and the linear one,
  the product \<^verbatim>\<open>l_linstep*angular_rescaling\<close> stored in an \<^verbatim>\<open>int\<close>.
\<close>

definition l_log_increment :: "precision \<Rightarrow> transfers \<Rightarrow> int \<Rightarrow> int" where
  "l_log_increment ppr ptr current_l =
     max (c_int (real_of_int current_l * (l_logstep ppr powr angular_rescaling ptr - 1))) 1"

definition l_lin_increment :: "precision \<Rightarrow> transfers \<Rightarrow> int" where
  "l_lin_increment ppr ptr = c_int (real_of_int (l_linstep ppr) * angular_rescaling ptr)"

subsection \<open>Counting the values\<close>

text \<open>
  The routine runs its loops twice: first on \<^verbatim>\<open>(index_l, current_l)\<close> to count the values,
  then on the array. In both, \<^verbatim>\<open>increment\<close> is the logarithmic increment at the current
  multipole whenever the first loop tests it. The second loop has a fixed increment and
  comes to an end only when that is positive: it is a partial function, \<open>None\<close> when it
  runs forever.
\<close>

function l_count_log_loop :: "precision \<Rightarrow> transfers \<Rightarrow> int \<Rightarrow> int \<times> int \<Rightarrow> int \<times> int" where
  "l_count_log_loop ppr ptr l_max (index_l, current_l) =
     (let increment = l_log_increment ppr ptr current_l in
      if current_l + increment < l_max
         \<and> real_of_int increment < real_of_int (l_linstep ppr) * angular_rescaling ptr
      then l_count_log_loop ppr ptr l_max (index_l + 1, current_l + increment)
      else (index_l, current_l))"
  by pat_completeness auto
termination
  by (relation "measure (\<lambda>(ppr, ptr, l_max, index_l, current_l). nat (l_max - current_l))")
     (auto simp: l_log_increment_def)

partial_function (option) l_count_lin_loop :: "int \<Rightarrow> int \<Rightarrow> int \<times> int \<Rightarrow> (int \<times> int) option" where
  "l_count_lin_loop increment l_max s =
     (if snd s + increment \<le> l_max
      then l_count_lin_loop increment l_max (fst s + 1, snd s + increment)
      else Some s)"

definition l_list_count :: "precision \<Rightarrow> transfers \<Rightarrow> int \<Rightarrow> int option" where
  "l_list_count ppr ptr l_max =
     (case l_count_lin_loop (l_lin_increment ppr ptr) l_max
             (l_count_log_loop ppr ptr l_max (0, 2)) of
        None \<Rightarrow> None
      | Some (index_l, current_l) \<Rightarrow>
          Some ((if current_l \<noteq> l_max then index_l + 1 else index_l) + 1))"

subsection \<open>Filling the array\<close>

text \<open>The state is the filled part of \<^verbatim>\<open>ptr->l\<close>: \<^verbatim>\<open>index_l\<close> is the index of its last
  element.\<close>

function l_fill_log_loop :: "precision \<Rightarrow> transfers \<Rightarrow> int \<Rightarrow> int list \<Rightarrow> int list" where
  "l_fill_log_loop ppr ptr l_max ls =
     (let increment = l_log_increment ppr ptr (last ls) in
      if last ls + increment < l_max
         \<and> real_of_int increment < real_of_int (l_linstep ppr) * angular_rescaling ptr
      then l_fill_log_loop ppr ptr l_max (ls @ [last ls + increment])
      else ls)"
  by pat_completeness auto
termination
  by (relation "measure (\<lambda>(ppr, ptr, l_max, ls). nat (l_max - last ls))")
     (auto simp: l_log_increment_def)

partial_function (option) l_fill_lin_loop :: "int \<Rightarrow> int \<Rightarrow> int list \<Rightarrow> int list option" where
  "l_fill_lin_loop increment l_max ls =
     (if last ls + increment \<le> l_max
      then l_fill_lin_loop increment l_max (ls @ [last ls + increment])
      else Some ls)"

definition l_list_fill :: "precision \<Rightarrow> transfers \<Rightarrow> int \<Rightarrow> int list option" where
  "l_list_fill ppr ptr l_max =
     (case l_fill_lin_loop (l_lin_increment ppr ptr) l_max (l_fill_log_loop ppr ptr l_max [2]) of
        None \<Rightarrow> None
      | Some ls \<Rightarrow> Some (if last ls \<noteq> l_max then ls @ [l_max] else ls))"

subsection \<open>The size of the list for each mode and type\<close>

text \<open>
  The local \<^verbatim>\<open>l_max\<close> is reused: each type overwrites it when one of the tests applies
  and inherits it otherwise.
\<close>

definition l_list_type_l_max :: "perturbs \<Rightarrow> transfers \<Rightarrow> int \<Rightarrow> int \<Rightarrow> int \<Rightarrow> int" where
  "l_list_type_l_max ppt ptr index_md index_tt l_max =
     (let l_max =
            (if scalars ppt index_md then
               (let l_max = (if is_temperature ppt ptr index_tt then l_scalar_max ppt
                             else l_max);
                    l_max = (if is_polarization_e ppt ptr index_tt then l_scalar_max ppt
                             else l_max);
                    l_max = (if is_lcmb ppt ptr index_tt then l_scalar_max ppt else l_max);
                    l_max = (if is_density ppt ptr index_tt then l_lss_max ppt else l_max);
                    l_max = (if is_lensing ppt ptr index_tt then l_lss_max ppt else l_max)
                in l_max)
             else l_max);
          l_max = (if tensors ppt index_md then l_tensor_max ppt else l_max)
      in l_max)"

text \<open>\<^verbatim>\<open>while (ptr->l[index_l] < l_max) index_l++;\<close> from the index \<open>i\<close> of the head of the
  list.\<close>

fun l_first_index :: "int list \<Rightarrow> int \<Rightarrow> int \<Rightarrow> int" where
  "l_first_index [] l_max i = i"
| "l_first_index (x # xs) l_max i = (if x < l_max then l_first_index xs l_max (i + 1) else i)"

text \<open>The loop over the types of one mode. The state is \<^verbatim>\<open>l_max\<close>, \<^verbatim>\<open>l_size[index_md]\<close> and
  the filled part of the row \<^verbatim>\<open>l_size_tt[index_md]\<close>.\<close>

fun l_list_tt_loop ::
  "perturbs \<Rightarrow> transfers \<Rightarrow> int \<Rightarrow> int list \<Rightarrow> int \<times> int \<times> int list \<Rightarrow>
   error + int \<times> int \<times> int list" where
  "l_list_tt_loop ppt ptr index_md [] s = Inr s"
| "l_list_tt_loop ppt ptr index_md (index_tt # tts) s =
     (case s of (l_max, l_size_md, row) \<Rightarrow>
      let l_max = l_list_type_l_max ppt ptr index_md index_tt l_max in
      if l_max > ptr_l ptr ! nat (l_size_max ptr - 1) then Inl L_max_exceeds_table
      else
        (let index_l = l_first_index (ptr_l ptr) l_max 0;
             n = index_l + 1;
             n = (if n < l_size_max ptr then n + 1 else n);
             n = (if n < l_size_max ptr then n + 1 else n)
         in l_list_tt_loop ppt ptr index_md tts (l_max, max l_size_md n, row @ [n])))"

text \<open>The loop over the modes. The state is \<^verbatim>\<open>l_max\<close> and the filled parts of \<^verbatim>\<open>l_size\<close>
  and \<^verbatim>\<open>l_size_tt\<close>.\<close>

fun l_list_md_loop ::
  "perturbs \<Rightarrow> transfers \<Rightarrow> int list \<Rightarrow> int \<times> int list \<times> int list list \<Rightarrow>
   error + int \<times> int list \<times> int list list" where
  "l_list_md_loop ppt ptr [] s = Inr s"
| "l_list_md_loop ppt ptr (index_md # mds) s =
     (case s of (l_max, sizes, rows) \<Rightarrow>
      case l_list_tt_loop ppt ptr index_md [0 .. tt_size ptr ! nat index_md - 1] (l_max, 0, []) of
        Inl e \<Rightarrow> Inl e
      | Inr (l_max, l_size_md, row) \<Rightarrow>
          l_list_md_loop ppt ptr mds (l_max, sizes @ [l_size_md], rows @ [row]))"

subsection \<open>The routine\<close>

text \<open>\<open>None\<close>: the routine does not return. \<open>Some (Inl e)\<close>: it fails. \<open>Some (Inr ptr)\<close>: it
  succeeds with the transfer structure \<open>ptr\<close>.\<close>

definition transfer_get_l_list ::
  "precision \<Rightarrow> perturbs \<Rightarrow> transfers \<Rightarrow> (error + transfers) option" where
  "transfer_get_l_list ppr ppt ptr =
     (let l_max = l_list_l_max ppt in
      case l_list_count ppr ptr l_max of
        None \<Rightarrow> None
      | Some n \<Rightarrow>
          (case l_list_fill ppr ptr l_max of
             None \<Rightarrow> None
           | Some ls \<Rightarrow>
               (let ptr = ptr\<lparr>l_size_max := n, ptr_l := ls\<rparr> in
                case l_list_md_loop ppt ptr [0 .. ppt_md_size ppt - 1] (l_max, [], []) of
                  Inl e \<Rightarrow> Some (Inl e)
                | Inr (l_max, sizes, rows) \<Rightarrow>
                    Some (Inr (ptr\<lparr>l_size := sizes, l_size_tt := rows\<rparr>)))))"

text \<open>For the properties of the routine: the types for which one of the tests applies, so
  that the multipole they need does not depend on the value inherited.\<close>

definition l_max_determined :: "perturbs \<Rightarrow> transfers \<Rightarrow> int \<Rightarrow> int \<Rightarrow> bool" where
  "l_max_determined ppt ptr index_md index_tt \<longleftrightarrow>
     tensors ppt index_md
     \<or> scalars ppt index_md
        \<and> (is_temperature ppt ptr index_tt \<or> is_polarization_e ppt ptr index_tt
            \<or> is_lcmb ppt ptr index_tt \<or> is_density ppt ptr index_tt
            \<or> is_lensing ppt ptr index_tt)"

text \<open>What both loops of the filling pass keep: the list grows at its end, stays in
  strictly growing order and stays at or below \<^verbatim>\<open>l_max\<close>.\<close>

definition l_extends :: "int \<Rightarrow> int list \<Rightarrow> int list \<Rightarrow> bool" where
  "l_extends l_max ls ls' \<longleftrightarrow>
     (\<exists>ext. ls' = ls @ ext) \<and> ls' \<noteq> []
     \<and> (sorted_wrt (<) ls \<longrightarrow> sorted_wrt (<) ls')
     \<and> (last ls \<le> l_max \<longrightarrow> last ls' \<le> l_max)"


section \<open>The convolution with the radial kernel: \<^verbatim>\<open>transfer_integrate\<close>\<close>

text \<open>
  The fields of the workspace that the two integration routines read. The two tables of
  basis functions enter through their array \<^verbatim>\<open>chi_at_phimin\<close> only: \<^verbatim>\<open>ptw->HIS\<close> (the
  curved table of the current wavenumber) and \<^verbatim>\<open>ptw->pBIS\<close> (the flat one).
\<close>

record transfer_workspace =
  tau0_minus_tau :: "real list"
  w_trapz :: "real list"
  sources :: "real list"
  tau_size :: int
  ptw_K :: real
  ptw_sgnK :: int
  neglect_late_source :: bool
  tau0_minus_tau_cut :: real
  HIS_chi_at_phimin :: "real list"
  pBIS_chi_at_phimin :: "real list"

datatype radial_function_type =
    SCALAR_TEMPERATURE_0 | SCALAR_TEMPERATURE_1 | SCALAR_TEMPERATURE_2
  | SCALAR_POLARISATION_E
  | VECTOR_TEMPERATURE_1 | VECTOR_TEMPERATURE_2
  | VECTOR_POLARISATION_E | VECTOR_POLARISATION_B
  | TENSOR_TEMPERATURE_2
  | TENSOR_POLARISATION_E | TENSOR_POLARISATION_B

definition transfer_select_radial_function ::
  "perturbs \<Rightarrow> transfers \<Rightarrow> int \<Rightarrow> int \<Rightarrow> radial_function_type" where
  "transfer_select_radial_function ppt ptr index_md index_tt =
     (let ty = SCALAR_TEMPERATURE_0;
          ty = (if scalars ppt index_md then
                  (let ty = (if has_cl_cmb_temperature ppt then
                               (let ty = (if index_tt = index_tt_t0 ptr
                                          then SCALAR_TEMPERATURE_0 else ty);
                                    ty = (if index_tt = index_tt_t1 ptr
                                          then SCALAR_TEMPERATURE_1 else ty);
                                    ty = (if index_tt = index_tt_t2 ptr
                                          then SCALAR_TEMPERATURE_2 else ty)
                                in ty)
                             else ty);
                       ty = (if has_cl_cmb_polarization ppt \<and> index_tt = index_tt_e ptr
                             then SCALAR_POLARISATION_E else ty)
                   in ty)
                else ty);
          ty = (if vectors ppt index_md then
                  (let ty = (if has_cl_cmb_temperature ppt then
                               (let ty = (if index_tt = index_tt_t1 ptr
                                          then VECTOR_TEMPERATURE_1 else ty);
                                    ty = (if index_tt = index_tt_t2 ptr
                                          then VECTOR_TEMPERATURE_2 else ty)
                                in ty)
                             else ty);
                       ty = (if has_cl_cmb_polarization ppt then
                               (let ty = (if index_tt = index_tt_e ptr
                                          then VECTOR_POLARISATION_E else ty);
                                    ty = (if index_tt = index_tt_b ptr
                                          then VECTOR_POLARISATION_B else ty)
                                in ty)
                             else ty)
                   in ty)
                else ty);
          ty = (if tensors ppt index_md then
                  (let ty = (if has_cl_cmb_temperature ppt \<and> index_tt = index_tt_t2 ptr
                             then TENSOR_TEMPERATURE_2 else ty);
                       ty = (if has_cl_cmb_polarization ppt then
                               (let ty = (if index_tt = index_tt_e ptr
                                          then TENSOR_POLARISATION_E else ty);
                                    ty = (if index_tt = index_tt_b ptr
                                          then TENSOR_POLARISATION_B else ty)
                                in ty)
                             else ty)
                   in ty)
                else ty)
      in ty)"

text \<open>The smallest \<^verbatim>\<open>tau0-tau\<close> at which the kernel is known,
  \<^verbatim>\<open>tau0_minus_tau_min_bessel\<close>.\<close>

definition tau0_minus_tau_min_bessel ::
  "transfers \<Rightarrow> transfer_workspace \<Rightarrow> int \<Rightarrow> real \<Rightarrow> int \<Rightarrow> real \<Rightarrow> real" where
  "tau0_minus_tau_min_bessel ptr ptw index_q l index_l k =
     (if ptw_sgnK ptw = 0 then pBIS_chi_at_phimin ptw ! nat index_l / k
      else if index_q < index_q_flat_approximation ptr then
        HIS_chi_at_phimin ptw ! nat index_l / sqrt (real_of_int (ptw_sgnK ptw) * ptw_K ptw)
      else
        (let b = pBIS_chi_at_phimin ptw ! nat index_l
                 / sqrt (real_of_int (ptw_sgnK ptw) * ptw_K ptw)
         in if ptw_sgnK ptw = 1 then
              (let x_turning_point =
                     arcsin (sqrt (l * (l + 1)) / ptr_q ptr ! nat index_q
                             * sqrt (real_of_int (ptw_sgnK ptw) * ptw_K ptw))
               in b * (x_turning_point / sqrt (l * (l + 1))))
            else
              (let x_turning_point =
                     arsinh (sqrt (l * (l + 1)) / ptr_q ptr ! nat index_q
                             * sqrt (real_of_int (ptw_sgnK ptw) * ptw_K ptw))
               in b * (x_turning_point / sqrt (l * (l + 1))))))"

text \<open>
  The three loops that move \<^verbatim>\<open>index_tau_max\<close> down from the index \<open>i\<close>. The first has no
  test of the index: it stops at zero because the routine has returned before when
  \<^verbatim>\<open>tau0_minus_tau[0]\<close> is not above the bound; \<open>-1\<close> is the index it would reach
  otherwise. The other two return a null transfer function when the index becomes
  negative: \<open>None\<close>.
\<close>

fun index_tau_bessel :: "real list \<Rightarrow> real \<Rightarrow> nat \<Rightarrow> int" where
  "index_tau_bessel ts b 0 = (if ts ! 0 < b then -1 else 0)"
| "index_tau_bessel ts b (Suc i) =
     (if ts ! Suc i < b then index_tau_bessel ts b i else int (Suc i))"

fun index_tau_source :: "real list \<Rightarrow> nat \<Rightarrow> nat option" where
  "index_tau_source ss 0 = (if ss ! 0 = 0 then None else Some 0)"
| "index_tau_source ss (Suc i) =
     (if ss ! Suc i = 0 then index_tau_source ss i else Some (Suc i))"

fun index_tau_cut :: "real list \<Rightarrow> real \<Rightarrow> nat \<Rightarrow> nat option" where
  "index_tau_cut ts c 0 = (if ts ! 0 < c then None else Some 0)"
| "index_tau_cut ts c (Suc i) =
     (if ts ! Suc i < c then index_tau_cut ts c i else Some (Suc i))"

text \<open>Modelled from the spec: \<^verbatim>\<open>array_trapezoidal_convolution\<close> of the tools of the code,
  which is not part of this file: the convolution integral by trapezoidal quadrature
  with the precomputed weights, the sum of the products of the two integrands and the
  weight over the first \<open>n\<close> samples.\<close>

definition array_trapezoidal_convolution ::
  "real list \<Rightarrow> real list \<Rightarrow> nat \<Rightarrow> real list \<Rightarrow> real" where
  "array_trapezoidal_convolution integrand1 integrand2 n w =
     (\<Sum>i \<leftarrow> [0 ..< n]. integrand1 ! i * integrand2 ! i * w ! i)"

text \<open>
  The routine. \<^verbatim>\<open>transfer_radial_function\<close>, which evaluates the kernel of a type at the
  first \<^verbatim>\<open>x_size\<close> time samples through the library of hyperspherical functions, is the
  parameter \<open>radial\<close>: it fails or returns that many values.
\<close>

definition transfer_integrate ::
  "(radial_function_type \<Rightarrow> int \<Rightarrow> error + real list) \<Rightarrow>
   perturbs \<Rightarrow> transfers \<Rightarrow> transfer_workspace \<Rightarrow> int \<Rightarrow> int \<Rightarrow> int \<Rightarrow> real \<Rightarrow> int \<Rightarrow> real \<Rightarrow>
   error + real" where
  "transfer_integrate radial ppt ptr ptw index_q index_md index_tt l index_l k =
     (let b = tau0_minus_tau_min_bessel ptr ptw index_q l index_l k in
      if b \<ge> tau0_minus_tau ptw ! 0 then Inr 0
      else
        (let radial_type = transfer_select_radial_function ppt ptr index_md index_tt in
         if tau_size ptw = 1 then
           (case radial radial_type 1 of
              Inl e \<Rightarrow> Inl e
            | Inr bessel \<Rightarrow> Inr (sources ptw ! 0 * bessel ! 0))
         else
           (let index_tau_max_Bessel =
                  index_tau_bessel (tau0_minus_tau ptw) b (nat (tau_size ptw - 1))
            in case index_tau_source (sources ptw) (nat index_tau_max_Bessel) of
                 None \<Rightarrow> Inr 0
               | Some i \<Rightarrow>
                   (case (if neglect_late_source ptw
                          then index_tau_cut (tau0_minus_tau ptw) (tau0_minus_tau_cut ptw) i
                          else Some i) of
                      None \<Rightarrow> Inr 0
                    | Some index_tau_max \<Rightarrow>
                        (case radial radial_type (int index_tau_max + 1) of
                           Inl e \<Rightarrow> Inl e
                         | Inr radial_function \<Rightarrow>
                             (let trsf = array_trapezoidal_convolution (sources ptw)
                                           radial_function (index_tau_max + 1) (w_trapz ptw)
                              in if int index_tau_max \<noteq> tau_size ptw - 1
                                    \<and> int index_tau_max = index_tau_max_Bessel
                                 then Inr (trsf
                                           - 1/2 * (tau0_minus_tau ptw ! (index_tau_max + 1) - b)
                                             * radial_function ! index_tau_max
                                             * sources ptw ! index_tau_max)
                                 else Inr trsf))))))"

text \<open>
  For the properties of the routine: the index at which the time range ends after the
  three loops (\<open>None\<close> when nothing is left), and the case in which the range is cut short
  by the bound of the kernel and by nothing else, that is, the last sample is below the
  bound \<open>b\<close>, the source does not vanish at the last sample above the bound, and the cut
  of late times, if in force, keeps that sample.
\<close>

definition retained_index :: "transfer_workspace \<Rightarrow> real \<Rightarrow> nat option" where
  "retained_index ptw b =
     (case index_tau_source (sources ptw)
             (nat (index_tau_bessel (tau0_minus_tau ptw) b (nat (tau_size ptw - 1)))) of
        None \<Rightarrow> None
      | Some i \<Rightarrow>
          if neglect_late_source ptw
          then index_tau_cut (tau0_minus_tau ptw) (tau0_minus_tau_cut ptw) i
          else Some i)"

definition bessel_truncation :: "transfer_workspace \<Rightarrow> real \<Rightarrow> bool" where
  "bessel_truncation ptw b \<longleftrightarrow>
     tau0_minus_tau ptw ! nat (tau_size ptw - 1) < b
     \<and> sources ptw
          ! nat (index_tau_bessel (tau0_minus_tau ptw) b (nat (tau_size ptw - 1))) \<noteq> 0
     \<and> (neglect_late_source ptw \<longrightarrow>
          \<not> tau0_minus_tau ptw
               ! nat (index_tau_bessel (tau0_minus_tau ptw) b (nat (tau_size ptw - 1)))
             < tau0_minus_tau_cut ptw)"

section \<open>The Limber approximation: \<^verbatim>\<open>transfer_limber\<close>\<close>

text \<open>Modelled from the spec: \<^verbatim>\<open>array_interpolate_parabola\<close> of the tools of the code,
  which is not part of this file: the local quadratic fitted to three points
  \<open>(x1, y1)\<close>, \<open>(x2, y2)\<close>, \<open>(x3, y3)\<close>, evaluated at \<open>x\<close>.\<close>

definition array_interpolate_parabola ::
  "real \<Rightarrow> real \<Rightarrow> real \<Rightarrow> real \<Rightarrow> real \<Rightarrow> real \<Rightarrow> real \<Rightarrow> real" where
  "array_interpolate_parabola x1 x2 x3 x y1 y2 y3 =
     y1 * ((x - x2) * (x - x3)) / ((x1 - x2) * (x1 - x3))
     + y2 * ((x - x1) * (x - x3)) / ((x2 - x1) * (x2 - x3))
     + y3 * ((x - x1) * (x - x2)) / ((x3 - x1) * (x3 - x2))"

text \<open>The search of the bracketing index, from \<^verbatim>\<open>index_tau\<close>.\<close>

function limber_index :: "real list \<Rightarrow> real \<Rightarrow> int \<Rightarrow> int \<Rightarrow> int" where
  "limber_index ts tau0_minus_tau_limber n_tau index_tau =
     (if ts ! nat index_tau > tau0_minus_tau_limber \<and> index_tau < n_tau - 2
      then limber_index ts tau0_minus_tau_limber n_tau (index_tau + 1)
      else index_tau)"
  by pat_completeness auto
termination
  by (relation "measure (\<lambda>(ts, x, n_tau, index_tau). nat (n_tau - 2 - index_tau))") auto

text \<open>The routine always returns \<^verbatim>\<open>_SUCCESS_\<close> (the fit cannot fail); the model returns
  \<^verbatim>\<open>*trsf\<close>. The arguments are the number of samples, \<^verbatim>\<open>l\<close>, \<^verbatim>\<open>k\<close>, the samples of
  \<^verbatim>\<open>tau0-tau\<close> and the sources.\<close>

definition transfer_limber :: "int \<Rightarrow> real \<Rightarrow> real \<Rightarrow> real list \<Rightarrow> real list \<Rightarrow> real" where
  "transfer_limber n_tau l k ts ss =
     (let tau0_minus_tau_limber = (l + 1/2) / k in
      if tau0_minus_tau_limber > ts ! 0 \<or> tau0_minus_tau_limber < ts ! nat (n_tau - 1)
      then 0
      else
        (let index_tau = limber_index ts tau0_minus_tau_limber n_tau 1;
             S = (if index_tau < n_tau - 2 then
                    array_interpolate_parabola
                      (ts ! nat (index_tau - 1)) (ts ! nat index_tau) (ts ! nat (index_tau + 1))
                      tau0_minus_tau_limber
                      (ss ! nat (index_tau - 1) * ts ! nat (index_tau - 1))
                      (ss ! nat index_tau * ts ! nat index_tau)
                      (ss ! nat (index_tau + 1) * ts ! nat (index_tau + 1))
                  else
                    array_interpolate_parabola
                      (ts ! nat (index_tau - 1)) (ts ! nat index_tau) (ts ! nat (index_tau + 1))
                      tau0_minus_tau_limber
                      (ss ! nat (index_tau - 1) * ts ! nat (index_tau - 1))
                      (ss ! nat index_tau * ts ! nat index_tau)
                      (ss ! nat index_tau * ts ! nat index_tau))
         in sqrt (pi / (2 * l + 1)) * S / (l + 1/2)))"

text \<open>What the fit would be on the product of the source and \<^verbatim>\<open>tau0-tau\<close> at the three
  samples around \<open>index_tau\<close>.\<close>

definition parabola_of_product :: "real list \<Rightarrow> real list \<Rightarrow> int \<Rightarrow> real \<Rightarrow> real" where
  "parabola_of_product ts ss index_tau x =
     array_interpolate_parabola
       (ts ! nat (index_tau - 1)) (ts ! nat index_tau) (ts ! nat (index_tau + 1)) x
       (ss ! nat (index_tau - 1) * ts ! nat (index_tau - 1))
       (ss ! nat index_tau * ts ! nat index_tau)
       (ss ! nat (index_tau + 1) * ts ! nat (index_tau + 1))"

section \<open>The selection window\<close>

subsection \<open>\<^verbatim>\<open>transfer_selection_function\<close>\<close>

definition transfer_selection_function ::
  "precision \<Rightarrow> perturbs \<Rightarrow> int \<Rightarrow> real \<Rightarrow> error + real" where
  "transfer_selection_function ppr ppt bin z =
     (if selection ppt = dirac then Inr 1
      else
        (let x = \<bar>z - selection_mean ppt ! nat bin\<bar> in
         if selection ppt = gaussian then
           Inr (exp (- (1/2) * (x / selection_width ppt ! nat bin)\<^sup>2)
                / selection_width ppt ! nat bin / sqrt (2 * pi))
         else if selection ppt = tophat then
           Inr ((1 - tanh ((x - selection_width ppt ! nat bin)
                           / (selection_tophat_edge ppr * selection_width ppt ! nat bin))) / 2)
         else Inl Invalid_selection))"

subsection \<open>\<^verbatim>\<open>transfer_selection_compute\<close>\<close>

text \<open>Modelled from the spec: \<^verbatim>\<open>array_trapezoidal_integral\<close> of the tools of the code,
  which is not part of this file: the trapezoidal integral with precomputed weights, the
  sum of the products of the integrand and the weight over the first \<open>n\<close> samples.\<close>

definition array_trapezoidal_integral :: "real list \<Rightarrow> nat \<Rightarrow> real list \<Rightarrow> real" where
  "array_trapezoidal_integral integrand n w = (\<Sum>i \<leftarrow> [0 ..< n]. integrand ! i * w ! i)"

text \<open>
  The first loop, over the time samples: the background at the time of the sample
  (\<^verbatim>\<open>background_at_tau\<close> of the background module, the parameter \<open>at_tau\<close>, which fails or
  returns the vector \<^verbatim>\<open>pvecback\<close>), the redshift, the selection function, and the factor
  \<^verbatim>\<open>H\<close>.
\<close>

fun selection_loop ::
  "(real \<Rightarrow> error + real list) \<Rightarrow> precision \<Rightarrow> background \<Rightarrow> perturbs \<Rightarrow> real \<Rightarrow> int \<Rightarrow>
   real list \<Rightarrow> error + real list" where
  "selection_loop at_tau ppr pba ppt tau0 bin [] = Inr []"
| "selection_loop at_tau ppr pba ppt tau0 bin (t # ts) =
     (let tau = tau0 - t in
      case at_tau tau of
        Inl e \<Rightarrow> Inl e
      | Inr pvecback \<Rightarrow>
          (let z = a_today pba / pvecback ! nat (index_bg_a pba) - 1 in
           case transfer_selection_function ppr ppt bin z of
             Inl e \<Rightarrow> Inl e
           | Inr s \<Rightarrow>
               (case selection_loop at_tau ppr pba ppt tau0 bin ts of
                  Inl e \<Rightarrow> Inl e
                | Inr rest \<Rightarrow> Inr (s * pvecback ! nat (index_bg_H pba) # rest))))"

text \<open>The routine returns the array \<^verbatim>\<open>selection\<close>; \<open>ts\<close> is \<^verbatim>\<open>tau0_minus_tau\<close>, \<open>w\<close> is
  \<^verbatim>\<open>w_trapz\<close>, \<open>n_tau\<close> is \<^verbatim>\<open>tau_size\<close>.\<close>

definition transfer_selection_compute ::
  "(real \<Rightarrow> error + real list) \<Rightarrow> precision \<Rightarrow> background \<Rightarrow> perturbs \<Rightarrow>
   real list \<Rightarrow> real list \<Rightarrow> int \<Rightarrow> real \<Rightarrow> int \<Rightarrow> error + real list" where
  "transfer_selection_compute at_tau ppr pba ppt ts w n_tau tau0 bin =
     (case selection_loop at_tau ppr pba ppt tau0 bin (take (nat n_tau) ts) of
        Inl e \<Rightarrow> Inl e
      | Inr sel \<Rightarrow>
          (let norm = array_trapezoidal_integral sel (nat n_tau) w
           in Inr (map (\<lambda>s. s / norm) sel)))"

text \<open>The integral that the routine divides by.\<close>

definition selection_norm ::
  "(real \<Rightarrow> error + real list) \<Rightarrow> precision \<Rightarrow> background \<Rightarrow> perturbs \<Rightarrow>
   real list \<Rightarrow> real list \<Rightarrow> int \<Rightarrow> real \<Rightarrow> int \<Rightarrow> real" where
  "selection_norm at_tau ppr pba ppt ts w n_tau tau0 bin =
     (case selection_loop at_tau ppr pba ppt tau0 bin (take (nat n_tau) ts) of
        Inl e \<Rightarrow> 0
      | Inr sel \<Rightarrow> array_trapezoidal_integral sel (nat n_tau) w)"

subsection \<open>\<^verbatim>\<open>transfer_selection_times\<close>\<close>

text \<open>\<^verbatim>\<open>background_tau_of_z\<close> of the background module is the parameter \<open>tau_of_z\<close>. The
  result is \<open>(tau_min, tau_mean, tau_max)\<close>.\<close>

definition transfer_selection_times ::
  "(real \<Rightarrow> error + real) \<Rightarrow> precision \<Rightarrow> perturbs \<Rightarrow> int \<Rightarrow> error + real \<times> real \<times> real" where
  "transfer_selection_times tau_of_z ppr ppt bin =
     (let z = 0;
          z = (if selection ppt = gaussian
               then selection_mean ppt ! nat bin
                    + selection_width ppt ! nat bin * selection_cut_at_sigma ppr
               else z);
          z = (if selection ppt = tophat
               then selection_mean ppt ! nat bin
                    + (1 + selection_cut_at_sigma ppr * selection_tophat_edge ppr)
                      * selection_width ppt ! nat bin
               else z);
          z = (if selection ppt = dirac then selection_mean ppt ! nat bin else z)
      in case tau_of_z z of
           Inl e \<Rightarrow> Inl e
         | Inr tau_min \<Rightarrow>
             (let z = (if selection ppt = gaussian
                       then max (selection_mean ppt ! nat bin
                                 - selection_width ppt ! nat bin * selection_cut_at_sigma ppr) 0
                       else z);
                  z = (if selection ppt = tophat
                       then max (selection_mean ppt ! nat bin
                                 - (1 + selection_cut_at_sigma ppr * selection_tophat_edge ppr)
                                   * selection_width ppt ! nat bin) 0
                       else z);
                  z = (if selection ppt = dirac then selection_mean ppt ! nat bin else z)
              in case tau_of_z z of
                   Inl e \<Rightarrow> Inl e
                 | Inr tau_max \<Rightarrow>
                     (let z = max (selection_mean ppt ! nat bin) 0
                      in case tau_of_z z of
                           Inl e \<Rightarrow> Inl e
                         | Inr tau_mean \<Rightarrow> Inr (tau_min, tau_mean, tau_max))))"

subsection \<open>\<^verbatim>\<open>transfer_source_tau_size\<close>\<close>

text \<open>\<^verbatim>\<open>while (ppt->tau_sampling[index_tau_min]<=tau_rec) index_tau_min++;\<close> from the index
  \<open>i\<close> of the head of the list.\<close>

fun first_after_rec :: "real list \<Rightarrow> real \<Rightarrow> int \<Rightarrow> int" where
  "first_after_rec [] t_rec i = i"
| "first_after_rec (t # ts) t_rec i =
     (if t \<le> t_rec then first_after_rec ts t_rec (i + 1) else i)"

text \<open>
  The routine writes \<^verbatim>\<open>*tau_size\<close> in the branches whose test applies, one after the
  other, and leaves it as it is otherwise: \<open>n_tau\<close> is the value on entry.
\<close>

definition transfer_source_tau_size ::
  "(real \<Rightarrow> error + real) \<Rightarrow> precision \<Rightarrow> perturbs \<Rightarrow> transfers \<Rightarrow> real \<Rightarrow> real \<Rightarrow>
   int \<Rightarrow> int \<Rightarrow> int \<Rightarrow> error + int" where
  "transfer_source_tau_size tau_of_z ppr ppt ptr t_rec tau0 index_md index_tt n_tau =
     (case
        (if scalars ppt index_md then
           (let n_tau = (if has_cl_cmb_temperature ppt
                            \<and> (index_tt = index_tt_t0 ptr \<or> index_tt = index_tt_t1 ptr
                                \<or> index_tt = index_tt_t2 ptr)
                         then ppt_tau_size ppt else n_tau);
                n_tau = (if has_cl_cmb_polarization ppt \<and> index_tt = index_tt_e ptr
                         then ppt_tau_size ppt else n_tau);
                n_tau = (if has_cl_cmb_lensing_potential ppt \<and> index_tt = index_tt_lcmb ptr
                         then ppt_tau_size ppt - first_after_rec (tau_sampling ppt) t_rec 0
                         else n_tau)
            in case
                 (if has_cl_density ppt \<and> index_tt \<ge> index_tt_density ptr
                     \<and> index_tt < index_tt_density ptr + selection_num ppt
                  then
                    (case transfer_selection_times tau_of_z ppr ppt
                            (index_tt - index_tt_density ptr) of
                       Inl e \<Rightarrow> Inl e
                     | Inr (tau_min, tau_mean, tau_max) \<Rightarrow>
                         if tau_min = tau_max then Inr 1
                         else
                           (let n_tau = c_int (selection_sampling ppr);
                                l_limber = c_int (l_switch_limber_for_cl_density_over_z ppr
                                             * selection_mean ppt
                                               ! nat (index_tt - index_tt_density ptr))
                            in Inr (c_int (max (real_of_int n_tau)
                                     (real_of_int (c_int ((tau_max - tau_min)
                                         / ((tau0 - tau_mean) / real_of_int l_limber)))
                                      * selection_sampling_bessel ppr)))))
                  else Inr n_tau) of
                 Inl e \<Rightarrow> Inl e
               | Inr n_tau \<Rightarrow>
                   (if has_cl_lensing_potential ppt \<and> index_tt \<ge> index_tt_lensing ptr
                       \<and> index_tt < index_tt_lensing ptr + selection_num ppt
                    then
                      (case transfer_selection_times tau_of_z ppr ppt
                              (index_tt - index_tt_lensing ptr) of
                         Inl e \<Rightarrow> Inl e
                       | Inr (tau_min, tau_mean, tau_max) \<Rightarrow>
                           (let n_tau = c_int (selection_sampling ppr);
                                l_limber = c_int (l_switch_limber_for_cl_density_over_z ppr
                                             * selection_mean ppt
                                               ! nat (index_tt - index_tt_lensing ptr))
                            in Inr (c_int (max (real_of_int n_tau)
                                     (real_of_int (c_int ((tau0 - tau_min)
                                         / ((tau0 - tau_mean) / 2 / real_of_int l_limber)))
                                      * selection_sampling_bessel ppr)))))
                    else Inr n_tau))
         else Inr n_tau) of
        Inl e \<Rightarrow> Inl e
      | Inr n_tau \<Rightarrow> Inr (if tensors ppt index_md then ppt_tau_size ppt else n_tau))"

subsection \<open>The samples of the window of a galaxy-lensing type\<close>

text \<open>For a galaxy-lensing type, \<^verbatim>\<open>transfer_sources\<close> samples the selection window on an
  array of its own, of size \<^verbatim>\<open>tau_sources_size\<close>, which it passes to
  \<^verbatim>\<open>transfer_selection_compute\<close>.\<close>

definition tau_sources_size :: "precision \<Rightarrow> perturbs \<Rightarrow> int" where
  "tau_sources_size ppr ppt =
     (if selection ppt = dirac then 1 else c_int (selection_sampling ppr))"

section \<open>Concrete inputs\<close>

text \<open>The structures at which the theorems below are instantiated.\<close>

definition ppr_ex :: precision where
  "ppr_ex = \<lparr> l_switch_limber = 10, l_switch_limber_for_cl_density_over_z = 30,
      l_logstep = 2, l_linstep = 5, q_linstep = 1, q_logstep_spline = 1,
      q_logstep_open = 0, q_logstep_trapzd = 1, q_numstep_transition = 2,
      hyper_flat_approximation_nu = 4, selection_cut_at_sigma = 3,
      selection_tophat_edge = 1/10, selection_sampling = 50,
      selection_sampling_bessel = 2 \<rparr>"

definition pba_ex :: background where
  "pba_ex = \<lparr> conformal_age = 10, bg_K = 0, sgnK = 0, a_today = 1, index_bg_a = 0,
      index_bg_H = 1 \<rparr>"

definition pth_ex :: thermo where
  "pth_ex = \<lparr> tau_rec = 1, tau_cut = 2, th_angular_rescaling = 1 \<rparr>"

text \<open>A scalar mode with the galaxy-lensing spectrum of one redshift bin, whose selection
  window is a Dirac.\<close>

definition ppt_ex :: perturbs where
  "ppt_ex = \<lparr> ppt_has_cls = True, has_scalars = True, has_vectors = False,
      has_tensors = False, index_md_scalars = 0, index_md_vectors = 0,
      index_md_tensors = 0, ppt_md_size = 1, has_cl_cmb_temperature = False,
      has_cl_cmb_polarization = False, has_cl_cmb_lensing_potential = False,
      has_cl_density = False, has_cl_lensing_potential = True,
      l_scalar_max = 0, l_lss_max = 30, l_tensor_max = 0,
      selection_num = 1, selection = dirac, selection_mean = [1/2],
      selection_width = [1/10], ppt_k = [1, 2, 3], k_size_cl = 3, ppt_tau_size = 3,
      tau_sampling = [2, 5, 10] \<rparr>"

definition ptr_ex :: transfers where
  "ptr_ex = \<lparr> ptr_has_cls = True, ptr_md_size = 1, index_tt_t0 = 0, index_tt_t1 = 0,
      index_tt_t2 = 0, index_tt_e = 0, index_tt_b = 0, index_tt_lcmb = 0,
      index_tt_density = 0, index_tt_lensing = 0, tt_size = [1], l_size_tt = [],
      l_size = [], l_size_max = 0, ptr_l = [], ptr_q = [], q_size = 0, ptr_k = [],
      index_q_flat_approximation = 0, angular_rescaling = 1, transfer_verbose = 1 \<rparr>"

text \<open>The same with the number-count spectrum instead of the galaxy-lensing one.\<close>

definition ppt_density :: perturbs where
  "ppt_density = ppt_ex\<lparr>has_cl_density := True, has_cl_lensing_potential := False\<rparr>"


text \<open>A workspace of a flat universe with three time samples, whose kernel is known from
  \<open>3/2\<close> on for the first multipole.\<close>

definition ptw_ex :: transfer_workspace where
  "ptw_ex = \<lparr> tau0_minus_tau = [3, 2, 1], w_trapz = [1, 2, 1], sources = [1, 1, 1],
      tau_size = 3, ptw_K = 0, ptw_sgnK = 0, neglect_late_source = False,
      tau0_minus_tau_cut = 0, HIS_chi_at_phimin = [], pBIS_chi_at_phimin = [3/2] \<rparr>"

chapter \<open>Properties\<close>

section \<open>The Limber decision\<close>

text \<open>
  Claim C1, as the code has it. \<^verbatim>\<open>transfer_use_limber\<close> selects the Limber approximation
  exactly when \<open>q\<close> is above \<^verbatim>\<open>q_max_bessel\<close>, or the mode is the scalar one and
  \<^item> the type is the CMB lensing potential and \<open>l\<close> is above \<^verbatim>\<open>l_switch_limber\<close> (a
    threshold that no window scales), or
  \<^item> the type is a number-count type, \<open>l\<close> has reached the threshold
    \<^verbatim>\<open>l_switch_limber_for_cl_density_over_z\<close> times the mean of the window of its bin, and
    the window is not a Dirac, or
  \<^item> the type is a galaxy-lensing type and \<open>l\<close> has reached that threshold times the mean
    of the window of its bin, whatever the shape of the window (the number-count test
    comes first where a type is both).

  In every other case the exact integration is chosen.
\<close>

theorem transfer_use_limber_iff:
  "transfer_use_limber ppr ppt ptr q_max_bessel index_md index_tt q l \<longleftrightarrow>
     q > q_max_bessel \<or>
     scalars ppt index_md \<and>
       (is_lcmb ppt ptr index_tt \<and> l > l_switch_limber ppr
        \<or> is_density ppt ptr index_tt
            \<and> l \<ge> l_switch_limber_for_cl_density_over_z ppr
                    * selection_mean ppt ! nat (index_tt - index_tt_density ptr)
            \<and> selection ppt \<noteq> dirac
        \<or> \<not> (is_density ppt ptr index_tt
              \<and> l \<ge> l_switch_limber_for_cl_density_over_z ppr
                    * selection_mean ppt ! nat (index_tt - index_tt_density ptr))
            \<and> is_lensing ppt ptr index_tt
            \<and> l \<ge> l_switch_limber_for_cl_density_over_z ppr
                    * selection_mean ppt ! nat (index_tt - index_tt_lensing ptr))"
  unfolding transfer_use_limber_def is_lcmb_def is_density_def is_lensing_def
  by (cases "q > q_max_bessel"; cases "scalars ppt index_md"; simp) blast

text \<open>The theorem at the lensing type of \<open>ppt_ex\<close>, whose threshold is \<open>30 * 1/2\<close>: exact
  integration at \<open>l = 10\<close>, Limber at \<open>l = 15\<close>, and Limber at any \<open>l\<close> once \<open>q\<close> is above
  \<^verbatim>\<open>q_max_bessel\<close>.\<close>

theorem transfer_use_limber_iff_witness:
  "\<not> transfer_use_limber ppr_ex ppt_ex ptr_ex 2 0 0 1 10
   \<and> transfer_use_limber ppr_ex ppt_ex ptr_ex 2 0 0 1 15
   \<and> transfer_use_limber ppr_ex ppt_ex ptr_ex 2 0 0 3 10"
  using transfer_use_limber_iff [of ppr_ex ppt_ex ptr_ex 2 0 0 1 10]
    transfer_use_limber_iff [of ppr_ex ppt_ex ptr_ex 2 0 0 1 15]
    transfer_use_limber_iff [of ppr_ex ppt_ex ptr_ex 2 0 0 3 10]
  by (simp add: scalars_def is_lcmb_def is_density_def is_lensing_def
        ppr_ex_def ppt_ex_def ptr_ex_def)

text \<open>Against the claim as it was stated: the window of \<open>ppt_ex\<close> is a Dirac, the type is
  a galaxy-lensing type of the scalar mode, \<open>q\<close> is below \<^verbatim>\<open>q_max_bessel\<close>, and the Limber
  approximation is selected at \<open>l = 20\<close>.\<close>

theorem transfer_use_limber_dirac_lensing:
  "selection ppt_ex = dirac \<and> scalars ppt_ex 0 \<and> is_lensing ppt_ex ptr_ex 0
   \<and> (1::real) \<le> 2 \<and> transfer_use_limber ppr_ex ppt_ex ptr_ex 2 0 0 1 20"
  by (simp add: transfer_use_limber_def scalars_def is_lensing_def
        ppr_ex_def ppt_ex_def ptr_ex_def)

section \<open>Skipping the module\<close>

text \<open>
  Claim C10. When the perturbation structure requests no spectrum in harmonic space,
  \<^verbatim>\<open>transfer_init\<close> succeeds with the transfer structure changed in its flag only, which
  is false; nothing it does allocates or releases memory; the remainder of the routine
  is not run (the result is the same for any remainder); and \<^verbatim>\<open>transfer_free\<close> on the
  structure it leaves succeeds and releases nothing.
\<close>

theorem transfer_init_skips_without_cls:
  assumes "\<not> ppt_has_cls ppt"
  shows "fst (transfer_init rest pba pth ppt ptr) = Inr (ptr\<lparr>ptr_has_cls := False\<rparr>)
     \<and> \<not> ptr_has_cls (ptr\<lparr>ptr_has_cls := False\<rparr>)
     \<and> (\<forall>e \<in> set (snd (transfer_init rest pba pth ppt ptr)). \<not> touches_memory e)
     \<and> transfer_init rest pba pth ppt ptr = transfer_init rest' pba pth ppt ptr
     \<and> transfer_free (ptr\<lparr>ptr_has_cls := False\<rparr>) = (Inr (), [])"
  using assms by (simp add: transfer_init_def transfer_free_def)

text \<open>The theorem at \<open>ppt_ex\<close> with no spectrum requested, for a remainder that would fail
  after an allocation; on the structure before the call, whose flag is set,
  \<^verbatim>\<open>transfer_free\<close> does release blocks.\<close>

theorem transfer_init_skips_without_cls_witness:
  "\<not> ppt_has_cls (ppt_ex\<lparr>ppt_has_cls := False\<rparr>)
   \<and> transfer_init (\<lambda>p t. (Inl Callee_failed, [Alloc Tt_size])) pba_ex pth_ex
        (ppt_ex\<lparr>ppt_has_cls := False\<rparr>) ptr_ex
       = (Inr (ptr_ex\<lparr>ptr_has_cls := False\<rparr>),
          [Printf ''No harmonic space transfer functions to compute. Transfer module skipped.''])
   \<and> transfer_free (ptr_ex\<lparr>ptr_has_cls := False\<rparr>) = (Inr (), [])
   \<and> snd (transfer_free ptr_ex) \<noteq> []"
  using transfer_init_skips_without_cls
          [of "ppt_ex\<lparr>ppt_has_cls := False\<rparr>" "\<lambda>p t. (Inl Callee_failed, [Alloc Tt_size])"
              pba_ex pth_ex ptr_ex]
  by (simp add: ppt_ex_def ptr_ex_def transfer_init_def transfer_free_def)

section \<open>The wavenumber grid\<close>

subsection \<open>The loop, one pass at a time\<close>



lemma q_list_loop_step:
  "last qs < q_max \<Longrightarrow> \<not> q_size_max \<le> int (length qs) \<Longrightarrow>
   q_list_loop ppr q_period K sgn_K spline trapzd q_max q_size_max qs st =
   q_list_loop ppr q_period K sgn_K spline trapzd q_max q_size_max
     (qs @ [fst (q_list_next ppr q_period K sgn_K spline trapzd (last qs) (int (length qs)) st)])
     (snd (q_list_next ppr q_period K sgn_K spline trapzd (last qs) (int (length qs)) st))"
  by (subst q_list_loop.simps) (simp add: case_prod_beta)

lemma q_list_loop_invariant:
  assumes "q_list_loop ppr q_period K sgn_K spline trapzd q_max q_size_max qs st = Inr gen"
    and "I qs st"
    and "\<And>qs st. I qs st \<Longrightarrow> last qs < q_max \<Longrightarrow> \<not> q_size_max \<le> int (length qs) \<Longrightarrow>
           q_list_loop ppr q_period K sgn_K spline trapzd q_max q_size_max
             (qs @ [fst (q_list_next ppr q_period K sgn_K spline trapzd (last qs)
                           (int (length qs)) st)])
             (snd (q_list_next ppr q_period K sgn_K spline trapzd (last qs)
                           (int (length qs)) st)) = Inr gen \<Longrightarrow>
           I (qs @ [fst (q_list_next ppr q_period K sgn_K spline trapzd (last qs)
                           (int (length qs)) st)])
             (snd (q_list_next ppr q_period K sgn_K spline trapzd (last qs)
                           (int (length qs)) st))"
  shows "(\<exists>st'. I gen st') \<and> \<not> last gen < q_max"
  using assms(1,2)
proof (induction "nat (q_size_max - int (length qs))" arbitrary: qs st rule: less_induct)
  case less
  note step = assms(3)
  show ?case
  proof (cases "last qs < q_max")
    case False
    with less.prems have "gen = qs" by simp
    with False less.prems(2) show ?thesis by blast
  next
    case below: True
    show ?thesis
    proof (cases "q_size_max \<le> int (length qs)")
      case True
      with below less.prems show ?thesis by simp
    next
      case False
      let ?nx = "q_list_next ppr q_period K sgn_K spline trapzd (last qs) (int (length qs)) st"
      have run: "q_list_loop ppr q_period K sgn_K spline trapzd q_max q_size_max
                   (qs @ [fst ?nx]) (snd ?nx) = Inr gen"
        using less.prems(1) q_list_loop_step[OF below False] by simp
      have inv: "I (qs @ [fst ?nx]) (snd ?nx)"
        using step[OF less.prems(2) below False run] .
      have "nat (q_size_max - int (length (qs @ [fst ?nx]))) < nat (q_size_max - int (length qs))"
        using False by simp
      from less.hyps[OF this run inv] show ?thesis .
    qed
  qed
qed

lemma q_list_loop_shape:
  assumes "q_list_loop ppr q_period K sgn_K spline trapzd q_max q_size_max [q_min] st = Inr gen"
  shows "gen \<noteq> [] \<and> hd gen = q_min \<and> (\<forall>i < length gen - 1. gen ! i < q_max)
         \<and> q_max \<le> last gen"
proof -
  let ?I = "\<lambda>qs (st :: int \<times> real \<times> int).
              qs \<noteq> [] \<and> hd qs = q_min \<and> (\<forall>i < length qs - 1. qs ! i < q_max)"
  have "(\<exists>st'. ?I gen st') \<and> \<not> last gen < q_max"
  proof (rule q_list_loop_invariant[OF assms, where I = ?I])
    show "?I [q_min] st" by simp
  next
    fix qs :: "real list" and st :: "int \<times> real \<times> int"
    let ?q = "fst (q_list_next ppr q_period K sgn_K spline trapzd (last qs) (int (length qs)) st)"
    assume inv: "?I qs st" and below: "last qs < q_max"
    have "(qs @ [?q]) ! i < q_max" if "i < length (qs @ [?q]) - 1" for i
    proof (cases "i < length qs - 1")
      case True
      then have "i < length qs" by simp
      with True inv show ?thesis by (simp add: nth_append)
    next
      case False
      with that inv have "i = length qs - 1" by simp
      with inv below show ?thesis by (simp add: nth_append last_conv_nth)
    qed
    with inv show "?I (qs @ [?q])
       (snd (q_list_next ppr q_period K sgn_K spline trapzd (last qs) (int (length qs)) st))"
      by simp
  qed
  then show ?thesis by auto
qed



subsection \<open>What a successful construction returns\<close>


lemma q_list_fill_success:
  assumes "q_list_fill ppr q_period K sgn_K spline trapzd q_min q_max q_size_max = Inr grid"
  shows "\<exists>gen. q_list_loop ppr q_period K sgn_K spline trapzd q_max q_size_max [q_min] (3, 0, 0)
                = Inr gen
           \<and> hd gen = q_min \<and> q_max \<le> last gen \<and> (\<forall>i < length gen - 1. gen ! i < q_max)
           \<and> grid = (if q_max < last gen then butlast gen else gen)
           \<and> 2 \<le> length grid"
proof -
  from assms obtain gen where
    run: "q_list_loop ppr q_period K sgn_K spline trapzd q_max q_size_max [q_min] (3, 0, 0)
          = Inr gen"
    by (auto simp: q_list_fill_def split: sum.splits)
  from q_list_loop_shape[OF run]
  have shape: "gen \<noteq> []" "hd gen = q_min" "\<forall>i < length gen - 1. gen ! i < q_max"
    "q_max \<le> last gen" by auto
  let ?n = "if last gen > q_max then int (length gen) - 1 else int (length gen)"
  from assms run have n: "\<not> ?n < 2" and grid: "grid = take (nat ?n) gen"
    by (auto simp: q_list_fill_def Let_def split: if_splits)
  have "nat (int (length gen) - 1) = length gen - 1" by simp
  with grid have "grid = (if q_max < last gen then butlast gen else gen)"
    by (simp add: butlast_conv_take)
  moreover have "2 \<le> length grid"
    using n grid by (auto split: if_splits)
  ultimately show ?thesis using run shape by blast
qed

lemma q_list_fill_ends:
  assumes "q_list_fill ppr q_period K sgn_K spline trapzd q_min q_max q_size_max = Inr grid"
  shows "hd grid = q_min \<and> last grid \<le> q_max \<and> 2 \<le> length grid"
proof -
  from q_list_fill_success[OF assms] obtain gen where
    g: "hd gen = q_min" "q_max \<le> last gen" "\<forall>i < length gen - 1. gen ! i < q_max"
       "grid = (if q_max < last gen then butlast gen else gen)" "2 \<le> length grid"
    by blast
  show ?thesis
  proof (cases "q_max < last gen")
    case False
    with g show ?thesis by simp
  next
    case True
    with g have grid: "grid = butlast gen" and len: "3 \<le> length gen" by auto
    from len have "hd grid = hd gen" unfolding grid by (cases gen) auto
    moreover have "last grid = gen ! (length gen - 2)"
    proof -
      have "butlast gen \<noteq> []" using len by (cases gen) auto
      then have "last (butlast gen) = butlast gen ! (length (butlast gen) - 1)"
        by (rule last_conv_nth)
      also have "\<dots> = gen ! (length gen - 2)"
        using len by (simp add: nth_butlast numeral_2_eq_2)
      finally show ?thesis unfolding grid .
    qed
    moreover have "gen ! (length gen - 2) < q_max" using g(3) len by simp
    ultimately show ?thesis using g by simp
  qed
qed


subsection \<open>The passes of the loop, and a step of zero\<close>




text \<open>With a positive period, linear step and logarithmic step the step formula is
  positive at a positive value: a step of zero is a matter of degenerate parameters.\<close>

lemma q_list_step_pos:
  assumes "0 < q_period" and "0 < q_linstep ppr" and "0 < logstep" and "0 < q"
  shows "0 < q_list_step ppr q_period logstep q"
proof -
  from assms have "0 < q_linstep ppr / logstep" by simp
  with assms(4) have "0 < q + q_linstep ppr / logstep" by simp
  moreover from assms have "0 < q_period * q_linstep ppr * q" by simp
  ultimately show ?thesis unfolding q_list_step_def by (rule divide_pos_pos[rotated])
qed

















subsection \<open>The grid of the routine\<close>

lemma transfer_get_q_list_grid:
  assumes "transfer_get_q_list ppr ppt ptr q_period K sgn_K = Inr ptr'"
  shows "hd (ptr_q ptr') = fst (q_list_bounds ppt K sgn_K)
         \<and> last (ptr_q ptr') \<le> fst (snd (q_list_bounds ppt K sgn_K))
         \<and> 2 \<le> length (ptr_q ptr') \<and> q_size ptr' = int (length (ptr_q ptr'))"
proof -
  obtain q_min q_max K' where b: "q_list_bounds ppt K sgn_K = (q_min, q_max, K')"
    by (cases "q_list_bounds ppt K sgn_K") auto
  from assms b obtain grid where
    fill: "q_list_fill ppr q_period K' sgn_K
             (q_logstep_spline ppr / (angular_rescaling ptr powr q_logstep_open ppr))
             (q_logstep_trapzd ppr) q_min q_max
             (q_list_size_max ppr q_period K' sgn_K q_min q_max) = Inr grid"
    and ptr': "ptr_q ptr' = grid" "q_size ptr' = int (length grid)"
    by (auto simp: transfer_get_q_list_def Let_def split: sum.splits if_splits)
  from q_list_fill_ends[OF fill] ptr' b show ?thesis by simp
qed


text \<open>The flat grid from 1 to 3 with a period, a linear step and a logarithmic step that
  make the size estimate 6: three values, the fourth being dropped.\<close>

lemma transfer_get_q_list_flat_example:
  "transfer_get_q_list (ppr_ex\<lparr>q_logstep_spline := 2\<rparr>) ppt_ex ptr_ex 1 0 0
   = Inr (ptr_ex\<lparr>ptr_q := [1, 5/3, 95/39], q_size := 3\<rparr>)"
proof -
  have "ln (3::real) \<noteq> 0" by simp
  then have "ln (3::real) / ln 3 = 1" by simp
  then show ?thesis
    by (simp add: transfer_get_q_list_def q_list_bounds_def q_list_size_max_def q_list_fill_def
          q_list_next_def q_list_step_def ppr_ex_def ppt_ex_def ptr_ex_def c_int_def)
qed


text \<open>
  Claim C5, as the code has it. The first and last value that \<^verbatim>\<open>transfer_get_q_list\<close>
  aims at depend on the curvature:
  \<^item> flat: the first value and the value of index \<^verbatim>\<open>k_size_cl-1\<close> of the perturbation
    module's list;
  \<^item> open (\<open>K \<le> 0\<close>): \<open>sqrt (k\<^sup>2 + K)\<close> of these two, the maximum with \<open>3 K\<close> when
    tensors are requested and \<open>2 K\<close> when vectors and no tensors are: it is here that the
    maximum is clamped by the spin of the modes;
  \<^item> closed: the minimum is \<open>3 sqrt K\<close> and the maximum is the perturbation module's,
    whatever modes are requested.

  The grid that the routine returns starts at the minimum and ends at or below the
  maximum.
\<close>

theorem q_list_bounds_by_curvature:
  "q_list_bounds ppt K 0 = (ppt_k ppt ! 0, ppt_k ppt ! nat (k_size_cl ppt - 1), 0)
   \<and> (K \<le> 0 \<longrightarrow>
        q_list_bounds ppt K (- 1) =
          (sqrt (ppt_k ppt ! 0 * ppt_k ppt ! 0 + K),
           sqrt (ppt_k ppt ! nat (k_size_cl ppt - 1) * ppt_k ppt ! nat (k_size_cl ppt - 1)
                 + (if has_tensors ppt then 3 else if has_vectors ppt then 2 else 1) * K),
           K))
   \<and> q_list_bounds ppt K 1 = (3 * sqrt K, ppt_k ppt ! nat (k_size_cl ppt - 1), K)
   \<and> (\<forall>ppr ptr q_period sgn_K ptr'.
         transfer_get_q_list ppr ppt ptr q_period K sgn_K = Inr ptr' \<longrightarrow>
           hd (ptr_q ptr') = fst (q_list_bounds ppt K sgn_K)
           \<and> last (ptr_q ptr') \<le> fst (snd (q_list_bounds ppt K sgn_K)))"
proof -
  have flat: "q_list_bounds ppt K 0 = (ppt_k ppt ! 0, ppt_k ppt ! nat (k_size_cl ppt - 1), 0)"
    by (simp add: q_list_bounds_def)
  have closed: "q_list_bounds ppt K 1 = (3 * sqrt K, ppt_k ppt ! nat (k_size_cl ppt - 1), K)"
    by (simp add: q_list_bounds_def)
  have "open": "q_list_bounds ppt K (- 1) =
          (sqrt (ppt_k ppt ! 0 * ppt_k ppt ! 0 + K),
           sqrt (ppt_k ppt ! nat (k_size_cl ppt - 1) * ppt_k ppt ! nat (k_size_cl ppt - 1)
                 + (if has_tensors ppt then 3 else if has_vectors ppt then 2 else 1) * K),
           K)" if "K \<le> 0"
  proof -
    let ?k = "ppt_k ppt ! nat (k_size_cl ppt - 1)"
    have "sqrt (?k * ?k + 3 * K) \<le> sqrt (?k * ?k + 2 * K)"
      and "sqrt (?k * ?k + 2 * K) \<le> sqrt (?k * ?k + K)"
      using that by simp_all
    then show ?thesis by (simp add: q_list_bounds_def Let_def min_def)
  qed
  from flat "open" closed transfer_get_q_list_grid show ?thesis by blast
qed


text \<open>The theorem at \<open>ppt_ex\<close>, whose wavenumbers run from 1 to 3: the bounds for the three
  signs of the curvature, with and without tensors in the open case, and the flat grid
  above, which starts at 1 and stops below 3.\<close>

theorem q_list_bounds_by_curvature_witness:
  "q_list_bounds ppt_ex 0 0 = (1, 3, 0)
   \<and> q_list_bounds ppt_ex (- 1) (- 1) = (0, sqrt 8, - 1)
   \<and> q_list_bounds (ppt_ex\<lparr>has_tensors := True\<rparr>) (- 1) (- 1) = (0, sqrt 6, - 1)
   \<and> q_list_bounds ppt_ex (1/4) 1 = (3/2, 3, 1/4)
   \<and> transfer_get_q_list (ppr_ex\<lparr>q_logstep_spline := 2\<rparr>) ppt_ex ptr_ex 1 0 0
       = Inr (ptr_ex\<lparr>ptr_q := [1, 5/3, 95/39], q_size := 3\<rparr>)
   \<and> hd [1, 5/3, 95/39 :: real] = 1 \<and> last [1, 5/3, 95/39 :: real] \<le> 3"
  using q_list_bounds_by_curvature[of ppt_ex 0]
    q_list_bounds_by_curvature[of ppt_ex "- 1"]
    q_list_bounds_by_curvature[of "ppt_ex\<lparr>has_tensors := True\<rparr>" "- 1"]
    q_list_bounds_by_curvature[of ppt_ex "1/4"]
    transfer_get_q_list_flat_example
  by (simp add: ppt_ex_def real_sqrt_divide)


text \<open>Against the claim as it was stated: in a closed universe the maximum is 3, the
  last wavenumber of the perturbation module, with vectors and tensors requested as
  without them.\<close>

theorem q_list_bounds_closed_not_clamped:
  "q_list_bounds (ppt_ex\<lparr>has_vectors := True, has_tensors := True\<rparr>) (1/4) 1 = (3/2, 3, 1/4)
   \<and> q_list_bounds (ppt_ex\<lparr>has_vectors := False, has_tensors := False\<rparr>) (1/4) 1
       = (3/2, 3, 1/4)
   \<and> ppt_k ppt_ex ! nat (k_size_cl ppt_ex - 1) = 3"
  by (simp add: q_list_bounds_def ppt_ex_def real_sqrt_divide)







subsection \<open>Overtones in a closed universe\<close>

text \<open>Below the threshold every pass of the loop moves to an integer multiple of
  \<open>sqrt K\<close>, at least one overtone further.\<close>

lemma q_list_next_closed_overtone:
  assumes "sgn_K = 1" and "nu < c_int (hyper_flat_approximation_nu ppr)"
    and "q_list_next ppr q_period K sgn_K spline trapzd q_prev index_q (nu, last_step, last_index)
         = (q, nu', st')"
  shows "q = real_of_int nu' * sqrt K \<and> nu + 1 \<le> nu'"
  using assms by (auto simp: q_list_next_def Let_def split: if_splits)


text \<open>
  Claim C7: a value of \<open>q / sqrt K\<close> further from the nearest integer than the
  tolerance is to be reported when the table is rebuilt. The test of
  \<^verbatim>\<open>transfer_update_HIS\<close> compares \<^verbatim>\<open>nu - (int)(nu+0.2)\<close> with the tolerance, without an
  absolute value: at \<open>q = 3.9\<close> and \<open>K = 1\<close> it reports nothing and builds the table for
  \<open>nu = 4\<close>.
\<close>

theorem update_HIS_nu_accepts_non_integer:
  "update_HIS_nu (39/10) 1 1 = Inr 4 \<and> \<bar>39/10 / sqrt 1 - 4\<bar> > (1 / 10^6 :: real)"
  by (simp add: update_HIS_nu_def c_int_def)

section \<open>The wavenumbers of the sources\<close>

lemma k_list_modes_length:
  "k_list_modes ppt qs n_q K mds m = Inr ks \<Longrightarrow> length ks = length mds"
  by (induction mds arbitrary: m ks) (auto simp: Let_def split: if_splits sum.splits)

lemma k_list_modes_row:
  assumes "k_list_modes ppt qs n_q K mds m = Inr ks" and "j < length mds"
  shows "\<exists>m'. ks ! j = map (\<lambda>index_q. sqrt (qs ! index_q * qs ! index_q - K * (m' + 1)))
                          [0 ..< nat n_q]
           \<and> (tensors ppt (mds ! j) \<longrightarrow> m' = 2)
           \<and> (vectors ppt (mds ! j) \<and> \<not> tensors ppt (mds ! j) \<longrightarrow> m' = 1)
           \<and> (scalars ppt (mds ! j) \<and> \<not> vectors ppt (mds ! j) \<and> \<not> tensors ppt (mds ! j)
                \<longrightarrow> m' = 0)
           \<and> \<not> ks ! j ! 0 < ppt_k ppt ! 0
           \<and> \<not> ks ! j ! nat (n_q - 1) > ppt_k ppt ! nat (k_size_cl ppt - 1)"
  using assms
proof (induction mds arbitrary: m ks j)
  case Nil
  then show ?case by simp
next
  case (Cons index_md mds)
  let ?m = "if tensors ppt index_md then 2
            else if vectors ppt index_md then 1
            else if scalars ppt index_md then 0 else m"
  let ?row = "map (\<lambda>index_q. sqrt (qs ! index_q * qs ! index_q - K * (?m + 1)))
                  [0 ..< nat n_q]"
  from Cons.prems(1) obtain ks' where
    rest: "k_list_modes ppt qs n_q K mds ?m = Inr ks'" and ks: "ks = ?row # ks'"
    and lo: "\<not> ?row ! 0 < ppt_k ppt ! 0"
    and hi: "\<not> ?row ! nat (n_q - 1) > ppt_k ppt ! nat (k_size_cl ppt - 1)"
    by (auto simp: Let_def split: if_splits sum.splits)
  show ?case
  proof (cases j)
    case 0
    show ?thesis
      apply (rule exI[of _ ?m])
      using 0 ks lo hi by simp
  next
    case (Suc j')
    with Cons.prems(2) have "j' < length mds" by simp
    from Cons.IH[OF rest this] Suc ks show ?thesis by simp
  qed
qed

lemma sqrt_radicand_mono:
  fixes a b c :: real
  assumes "0 \<le> a" and "a \<le> b"
  shows "sqrt (a * a - c) \<le> sqrt (b * b - c)"
proof -
  from assms have "a * a \<le> b * b" by (simp add: mult_mono)
  then show ?thesis by simp
qed


text \<open>
  Claim C8. When \<^verbatim>\<open>transfer_get_k_list\<close> succeeds on a grid of wavenumbers in growing
  order, none negative, there is a row for every mode and a value in it for every index
  of the grid; the value is \<open>sqrt (q\<^sup>2 - K (m + 1))\<close> with \<open>m = 2\<close> for the tensor mode,
  \<open>m = 1\<close> for the vector mode and \<open>m = 0\<close> for the scalar mode; and every value lies
  between the first value of the perturbation module's list and its value of index
  \<^verbatim>\<open>k_size_cl-1\<close>. So the construction fails unless all derived values are within these
  bounds. The assumption \<open>K * 3 \<le> q * q\<close> keeps the argument of the C square root from
  being negative for the three spins; the grid of \<^verbatim>\<open>transfer_get_q_list\<close> satisfies it.
\<close>

theorem transfer_get_k_list_within_bounds:
  assumes ok: "transfer_get_k_list ppt ptr K = Inr ptr'"
    and size: "q_size ptr = int (length (ptr_q ptr))" "0 < q_size ptr"
    and grid: "sorted (ptr_q ptr)" "\<forall>q \<in> set (ptr_q ptr). 0 \<le> q \<and> K * 3 \<le> q * q"
    and md: "0 \<le> index_md" "index_md < ptr_md_size ptr"
    and iq: "0 \<le> index_q" "index_q < q_size ptr"
  shows "length (ptr_k ptr') = nat (ptr_md_size ptr)
     \<and> length (ptr_k ptr' ! nat index_md) = nat (q_size ptr)
     \<and> (tensors ppt index_md \<longrightarrow>
          ptr_k ptr' ! nat index_md ! nat index_q
          = sqrt (ptr_q ptr ! nat index_q * ptr_q ptr ! nat index_q - K * (2 + 1)))
     \<and> (vectors ppt index_md \<and> \<not> tensors ppt index_md \<longrightarrow>
          ptr_k ptr' ! nat index_md ! nat index_q
          = sqrt (ptr_q ptr ! nat index_q * ptr_q ptr ! nat index_q - K * (1 + 1)))
     \<and> (scalars ppt index_md \<and> \<not> vectors ppt index_md \<and> \<not> tensors ppt index_md \<longrightarrow>
          ptr_k ptr' ! nat index_md ! nat index_q
          = sqrt (ptr_q ptr ! nat index_q * ptr_q ptr ! nat index_q - K * (0 + 1)))
     \<and> ppt_k ppt ! 0 \<le> ptr_k ptr' ! nat index_md ! nat index_q
     \<and> ptr_k ptr' ! nat index_md ! nat index_q \<le> ppt_k ppt ! nat (k_size_cl ppt - 1)"
proof -
  let ?mds = "[0 .. ptr_md_size ptr - 1]"
  let ?qs = "ptr_q ptr"
  let ?n = "nat (q_size ptr)"
  let ?i = "nat index_q"
  from ok obtain ks where
    run: "k_list_modes ppt ?qs (q_size ptr) K ?mds 0 = Inr ks" and k: "ptr_k ptr' = ks"
    by (auto simp: transfer_get_k_list_def split: sum.splits)
  have len: "length ?mds = nat (ptr_md_size ptr)" using md by simp
  have j: "nat index_md < length ?mds" using md by simp
  have nth: "?mds ! nat index_md = index_md" using md by simp
  from k_list_modes_row[OF run j, unfolded nth] obtain m' where
    row: "ks ! nat index_md
          = map (\<lambda>index_q. sqrt (?qs ! index_q * ?qs ! index_q - K * (m' + 1))) [0 ..< ?n]"
    and spin: "tensors ppt index_md \<longrightarrow> m' = 2"
      "vectors ppt index_md \<and> \<not> tensors ppt index_md \<longrightarrow> m' = 1"
      "scalars ppt index_md \<and> \<not> vectors ppt index_md \<and> \<not> tensors ppt index_md \<longrightarrow> m' = 0"
    and lo: "\<not> ks ! nat index_md ! 0 < ppt_k ppt ! 0"
    and hi: "\<not> ks ! nat index_md ! nat (q_size ptr - 1) > ppt_k ppt ! nat (k_size_cl ppt - 1)"
    by blast
  have i: "?i < ?n" and n: "?n = length ?qs" "0 < ?n" "nat (q_size ptr - 1) < ?n"
    using iq size by auto
  have at: "ks ! nat index_md ! l = sqrt (?qs ! l * ?qs ! l - K * (m' + 1))" if "l < ?n" for l
    using row that by simp
  have "0 \<le> ?qs ! 0" using grid(2) n by (metis nth_mem)
  moreover have "?qs ! 0 \<le> ?qs ! ?i" using grid(1) i n by (simp add: sorted_nth_mono)
  ultimately have first: "ks ! nat index_md ! 0 \<le> ks ! nat index_md ! ?i"
    using at[OF i] at[OF n(2)] sqrt_radicand_mono by simp
  have "0 \<le> ?qs ! ?i" using grid(2) i n by (metis nth_mem)
  moreover have "?qs ! ?i \<le> ?qs ! nat (q_size ptr - 1)"
    using grid(1) i n by (intro sorted_nth_mono) auto
  ultimately have last: "ks ! nat index_md ! ?i \<le> ks ! nat index_md ! nat (q_size ptr - 1)"
    using at[OF i] at[OF n(3)] sqrt_radicand_mono by simp
  have "length ks = nat (ptr_md_size ptr)" using k_list_modes_length[OF run] len by simp
  moreover have "length (ks ! nat index_md) = ?n" using row by simp
  ultimately show ?thesis using k spin at[OF i] first last lo hi by auto
qed


text \<open>The theorem at the scalar mode of \<open>ppt_ex\<close> in a flat universe, on the grid
  \<open>1, 5/3, 95/39\<close>.\<close>

theorem transfer_get_k_list_within_bounds_witness:
  "transfer_get_k_list ppt_ex (ptr_ex\<lparr>ptr_q := [1, 5/3, 95/39], q_size := 3\<rparr>) 0
     = Inr (ptr_ex\<lparr>ptr_q := [1, 5/3, 95/39], q_size := 3, ptr_k := [[1, 5/3, 95/39]]\<rparr>)
   \<and> sorted [1, 5/3, 95/39 :: real] \<and> scalars ppt_ex 0
   \<and> [[1, 5/3, 95/39 :: real]] ! 0 ! 1 = sqrt (5/3 * (5/3) - 0 * (0 + 1))
   \<and> (1 :: real) \<le> 5/3 \<and> (5/3 :: real) \<le> 3"
proof -
  have run: "transfer_get_k_list ppt_ex (ptr_ex\<lparr>ptr_q := [1, 5/3, 95/39], q_size := 3\<rparr>) 0
     = Inr (ptr_ex\<lparr>ptr_q := [1, 5/3, 95/39], q_size := 3, ptr_k := [[1, 5/3, 95/39]]\<rparr>)"
    by (simp add: transfer_get_k_list_def ppt_ex_def ptr_ex_def scalars_def vectors_def
          tensors_def upto.simps upt_rec Let_def)
  from transfer_get_k_list_within_bounds[OF run, of 0 1]
  show ?thesis using run
    by (simp add: ppt_ex_def ptr_ex_def scalars_def vectors_def tensors_def)
qed

section \<open>The selection window\<close>

lemma selection_loop_length:
  "selection_loop at_tau ppr pba ppt tau0 bin ts = Inr raw \<Longrightarrow> length raw = length ts"
  by (induction ts arbitrary: raw) (auto simp: Let_def split: sum.splits)

lemma trapezoidal_integral_scaled:
  assumes "n \<le> length raw"
  shows "array_trapezoidal_integral (map (\<lambda>s. s / c) raw) n w
         = array_trapezoidal_integral raw n w / c"
proof -
  have "(\<Sum>i \<leftarrow> [0 ..< n]. map (\<lambda>s. s / c) raw ! i * w ! i)
        = (\<Sum>i \<leftarrow> [0 ..< n]. raw ! i * w ! i * inverse c)"
    using assms by (intro arg_cong[where f = sum_list] map_cong) (auto simp: divide_inverse)
  also have "\<dots> = (\<Sum>i \<leftarrow> [0 ..< n]. raw ! i * w ! i) / c"
    by (simp add: sum_list_mult_const divide_inverse)
  finally show ?thesis by (simp add: array_trapezoidal_integral_def)
qed

lemma transfer_selection_compute_norm:
  assumes ok: "transfer_selection_compute at_tau ppr pba ppt ts w n_tau tau0 bin = Inr sel"
    and size: "nat n_tau \<le> length ts"
    and norm: "selection_norm at_tau ppr pba ppt ts w n_tau tau0 bin \<noteq> 0"
  shows "array_trapezoidal_integral sel (nat n_tau) w = 1 \<and> length sel = nat n_tau"
proof -
  from ok obtain raw where
    raw: "selection_loop at_tau ppr pba ppt tau0 bin (take (nat n_tau) ts) = Inr raw"
    and sel: "sel = map (\<lambda>s. s / array_trapezoidal_integral raw (nat n_tau) w) raw"
    by (auto simp: transfer_selection_compute_def split: sum.splits)
  from selection_loop_length[OF raw] size have len: "length raw = nat n_tau" by simp
  from norm raw have nz: "array_trapezoidal_integral raw (nat n_tau) w \<noteq> 0"
    by (simp add: selection_norm_def)
  from len have "nat n_tau \<le> length raw" by simp
  from trapezoidal_integral_scaled[OF this] nz sel len show ?thesis by simp
qed

lemma transfer_selection_times_dirac:
  assumes "selection ppt = dirac"
    and "tau_of_z (selection_mean ppt ! nat bin) = Inr t"
    and "tau_of_z (max (selection_mean ppt ! nat bin) 0) = Inr t'"
  shows "transfer_selection_times tau_of_z ppr ppt bin = Inr (t, t', t)"
  using assms by (simp add: transfer_selection_times_def)

lemma transfer_source_tau_size_dirac:
  assumes "selection ppt = dirac"
    and "scalars ppt index_md" and "\<not> tensors ppt index_md"
    and "is_density ppt ptr index_tt" and "\<not> is_lensing ppt ptr index_tt"
    and "tau_of_z (selection_mean ppt ! nat (index_tt - index_tt_density ptr)) = Inr t"
    and "tau_of_z (max (selection_mean ppt ! nat (index_tt - index_tt_density ptr)) 0) = Inr t'"
  shows "transfer_source_tau_size tau_of_z ppr ppt ptr t_rec tau0 index_md index_tt n = Inr 1"
proof -
  have times: "transfer_selection_times tau_of_z ppr ppt (index_tt - index_tt_density ptr)
               = Inr (t, t', t)"
    by (rule transfer_selection_times_dirac[OF assms(1,6,7)])
  have d: "has_cl_density ppt \<and> index_tt \<ge> index_tt_density ptr
           \<and> index_tt < index_tt_density ptr + selection_num ppt"
    using assms(4) by (simp add: is_density_def)
  have l: "\<not> (has_cl_lensing_potential ppt \<and> index_tt \<ge> index_tt_lensing ptr
              \<and> index_tt < index_tt_lensing ptr + selection_num ppt)"
    using assms(5) by (simp add: is_lensing_def)
  show ?thesis
    unfolding transfer_source_tau_size_def Let_def
    by (simp only: assms(2,3) d l times if_True if_False sum.case prod.case refl) simp
qed


lemma c_int_mono: "x \<le> y \<Longrightarrow> c_int x \<le> c_int y"
proof -
  assume le: "x \<le> y"
  show ?thesis
  proof (cases "0 \<le> x")
    case True
    with le show ?thesis by (simp add: c_int_def floor_mono)
  next
    case neg: False
    show ?thesis
    proof (cases "0 \<le> y")
      case True
      from neg have "\<lceil>x\<rceil> \<le> 0" by (simp add: ceiling_le_iff)
      moreover from True have "0 \<le> \<lfloor>y\<rfloor>" by simp
      ultimately have "\<lceil>x\<rceil> \<le> \<lfloor>y\<rfloor>" by (rule order_trans)
      with neg True show ?thesis by (simp add: c_int_def)
    next
      case False
      with neg le show ?thesis by (simp add: c_int_def ceiling_mono)
    qed
  qed
qed

lemma c_int_of_int: "c_int (real_of_int n) = n"
  by (simp add: c_int_def)

text \<open>For a galaxy-lensing type the routine takes no account of the shape of the window:
  the number of times is the sampling of the precision structure, or more.\<close>

lemma transfer_source_tau_size_lensing:
  assumes "scalars ppt index_md" and "\<not> tensors ppt index_md"
    and "is_lensing ppt ptr index_tt" and "\<not> is_density ppt ptr index_tt"
    and "transfer_selection_times tau_of_z ppr ppt (index_tt - index_tt_lensing ptr)
         = Inr (tau_min, tau_mean, tau_max)"
  shows "transfer_source_tau_size tau_of_z ppr ppt ptr t_rec tau0 index_md index_tt n
         = Inr (c_int (max (real_of_int (c_int (selection_sampling ppr)))
                  (real_of_int (c_int ((tau0 - tau_min)
                     / ((tau0 - tau_mean) / 2
                        / real_of_int (c_int (l_switch_limber_for_cl_density_over_z ppr
                             * selection_mean ppt ! nat (index_tt - index_tt_lensing ptr))))))
                   * selection_sampling_bessel ppr)))"
proof -
  have l: "has_cl_lensing_potential ppt \<and> index_tt \<ge> index_tt_lensing ptr
           \<and> index_tt < index_tt_lensing ptr + selection_num ppt"
    using assms(3) by (simp add: is_lensing_def)
  have d: "\<not> (has_cl_density ppt \<and> index_tt \<ge> index_tt_density ptr
              \<and> index_tt < index_tt_density ptr + selection_num ppt)"
    using assms(4) by (simp add: is_density_def)
  show ?thesis
    unfolding transfer_source_tau_size_def Let_def
    by (simp only: assms(1,2,5) d l if_True if_False sum.case prod.case refl) simp
qed

lemma tau_sources_size_dirac: "selection ppt = dirac \<Longrightarrow> tau_sources_size ppr ppt = 1"
  by (simp add: tau_sources_size_def)


text \<open>
  Claim C9, as the code has it. When \<^verbatim>\<open>transfer_selection_compute\<close> succeeds on arrays
  that hold the \<^verbatim>\<open>tau_size\<close> samples, and the integral it divides by is not zero, the
  trapezoidal integral of the window it returns, the sum of \<^verbatim>\<open>w_trapz[i]*selection[i]\<close>,
  is 1, whatever the shape of the window. A Dirac window gives one sampled time for the
  number-count types of the scalar mode: there \<^verbatim>\<open>transfer_source_tau_size\<close> returns 1 (the
  two calls of \<^verbatim>\<open>background_tau_of_z\<close> being given to succeed). For a galaxy-lensing type
  of the scalar mode the routine has no test of the window (lines 1592 to 1621): whatever
  the shape, a Dirac too, it returns the larger of \<^verbatim>\<open>(int)selection_sampling\<close> and the
  number of steps that the Bessel functions need between the bin and today, which is at
  least \<^verbatim>\<open>(int)selection_sampling\<close>.
\<close>

theorem selection_window_normalised:
  "(transfer_selection_compute at_tau ppr pba ppt ts w n_tau tau0 bin = Inr sel
      \<and> nat n_tau \<le> length ts
      \<and> selection_norm at_tau ppr pba ppt ts w n_tau tau0 bin \<noteq> 0
    \<longrightarrow> array_trapezoidal_integral sel (nat n_tau) w = 1 \<and> length sel = nat n_tau)
   \<and> (selection ppt = dirac
      \<and> scalars ppt index_md \<and> \<not> tensors ppt index_md
      \<and> is_density ppt ptr index_tt \<and> \<not> is_lensing ppt ptr index_tt
      \<and> tau_of_z (selection_mean ppt ! nat (index_tt - index_tt_density ptr)) = Inr t
      \<and> tau_of_z (max (selection_mean ppt ! nat (index_tt - index_tt_density ptr)) 0) = Inr t'
    \<longrightarrow> transfer_source_tau_size tau_of_z ppr ppt ptr t_rec tau0 index_md index_tt n = Inr 1)
   \<and> (scalars ppt index_md \<and> \<not> tensors ppt index_md
      \<and> is_lensing ppt ptr index_tt \<and> \<not> is_density ppt ptr index_tt
      \<and> transfer_selection_times tau_of_z ppr ppt (index_tt - index_tt_lensing ptr)
          = Inr (tau_min, tau_mean, tau_max)
    \<longrightarrow> (\<exists>m. transfer_source_tau_size tau_of_z ppr ppt ptr t_rec tau0 index_md index_tt n
                = Inr m
            \<and> m = c_int (max (real_of_int (c_int (selection_sampling ppr)))
                    (real_of_int (c_int ((tau0 - tau_min)
                       / ((tau0 - tau_mean) / 2
                          / real_of_int (c_int (l_switch_limber_for_cl_density_over_z ppr
                               * selection_mean ppt ! nat (index_tt - index_tt_lensing ptr))))))
                     * selection_sampling_bessel ppr))
            \<and> c_int (selection_sampling ppr) \<le> m))"
proof (intro conjI impI)
  assume a: "transfer_selection_compute at_tau ppr pba ppt ts w n_tau tau0 bin = Inr sel
      \<and> nat n_tau \<le> length ts
      \<and> selection_norm at_tau ppr pba ppt ts w n_tau tau0 bin \<noteq> 0"
  from a transfer_selection_compute_norm[of at_tau ppr pba ppt ts w n_tau tau0 bin sel]
  show "array_trapezoidal_integral sel (nat n_tau) w = 1" and "length sel = nat n_tau"
    by simp_all
next
  assume "selection ppt = dirac
      \<and> scalars ppt index_md \<and> \<not> tensors ppt index_md
      \<and> is_density ppt ptr index_tt \<and> \<not> is_lensing ppt ptr index_tt
      \<and> tau_of_z (selection_mean ppt ! nat (index_tt - index_tt_density ptr)) = Inr t
      \<and> tau_of_z (max (selection_mean ppt ! nat (index_tt - index_tt_density ptr)) 0) = Inr t'"
  then show "transfer_source_tau_size tau_of_z ppr ppt ptr t_rec tau0 index_md index_tt n = Inr 1"
    using transfer_source_tau_size_dirac by simp
next
  let ?m = "c_int (max (real_of_int (c_int (selection_sampling ppr)))
                    (real_of_int (c_int ((tau0 - tau_min)
                       / ((tau0 - tau_mean) / 2
                          / real_of_int (c_int (l_switch_limber_for_cl_density_over_z ppr
                               * selection_mean ppt ! nat (index_tt - index_tt_lensing ptr))))))
                     * selection_sampling_bessel ppr))"
  assume a: "scalars ppt index_md \<and> \<not> tensors ppt index_md
      \<and> is_lensing ppt ptr index_tt \<and> \<not> is_density ppt ptr index_tt
      \<and> transfer_selection_times tau_of_z ppr ppt (index_tt - index_tt_lensing ptr)
          = Inr (tau_min, tau_mean, tau_max)"
  then have run: "transfer_source_tau_size tau_of_z ppr ppt ptr t_rec tau0 index_md index_tt n
                  = Inr ?m"
    using transfer_source_tau_size_lensing by simp
  have "c_int (real_of_int (c_int (selection_sampling ppr))) \<le> ?m"
    by (rule c_int_mono) simp
  then have "c_int (selection_sampling ppr) \<le> ?m" by (simp only: c_int_of_int)
  with run show "\<exists>m. transfer_source_tau_size tau_of_z ppr ppt ptr t_rec tau0 index_md index_tt n
                = Inr m \<and> m = ?m \<and> c_int (selection_sampling ppr) \<le> m"
    by blast
qed


text \<open>The theorem at a Dirac window with one sample, where the background gives
  \<open>a = 1/2\<close> and \<open>H = 3\<close> and the weight is 2: the integral divided by is 6 and the
  window returned is \<open>1/2\<close>. With the time \<open>10 - z\<close> at the redshift \<open>z\<close> and today at 10,
  the number-count type of \<open>ppt_density\<close> has one sampled time and the galaxy-lensing type
  of \<open>ppt_ex\<close> at least 50.\<close>

theorem selection_window_normalised_witness:
  "transfer_selection_compute (\<lambda>tau. Inr [1/2, 3]) ppr_ex pba_ex ppt_density [4] [2] 1 10 0
     = Inr [1/2]
   \<and> selection_norm (\<lambda>tau. Inr [1/2, 3]) ppr_ex pba_ex ppt_density [4] [2] 1 10 0 = 6
   \<and> array_trapezoidal_integral [1/2] (nat 1) [2] = 1
   \<and> selection ppt_density = dirac \<and> is_density ppt_density ptr_ex 0
   \<and> transfer_source_tau_size (\<lambda>z. Inr (10 - z)) ppr_ex ppt_density ptr_ex 1 10 0 0 7 = Inr 1
   \<and> is_lensing ppt_ex ptr_ex 0
   \<and> transfer_selection_times (\<lambda>z. Inr (10 - z)) ppr_ex ppt_ex 0 = Inr (19/2, 19/2, 19/2)
   \<and> (\<exists>m. transfer_source_tau_size (\<lambda>z. Inr (10 - z)) ppr_ex ppt_ex ptr_ex 1 10 0 0 7 = Inr m
         \<and> 50 \<le> m)"
proof -
  have run: "transfer_selection_compute (\<lambda>tau. Inr [1/2, 3]) ppr_ex pba_ex ppt_density [4] [2]
               1 10 0 = Inr [1/2]"
    and norm: "selection_norm (\<lambda>tau. Inr [1/2, 3]) ppr_ex pba_ex ppt_density [4] [2] 1 10 0 = 6"
    by (simp_all add: transfer_selection_compute_def selection_norm_def
          transfer_selection_function_def array_trapezoidal_integral_def
          ppt_density_def ppt_ex_def pba_ex_def)
  have cls: "selection ppt_density = dirac" "scalars ppt_density 0" "\<not> tensors ppt_density 0"
    "is_density ppt_density ptr_ex 0" "\<not> is_lensing ppt_density ptr_ex 0"
    by (simp_all add: ppt_density_def ppt_ex_def ptr_ex_def scalars_def tensors_def
          is_density_def is_lensing_def)
  have lens: "scalars ppt_ex 0" "\<not> tensors ppt_ex 0" "is_lensing ppt_ex ptr_ex 0"
    "\<not> is_density ppt_ex ptr_ex 0"
    by (simp_all add: ppt_ex_def ptr_ex_def scalars_def tensors_def is_density_def
          is_lensing_def)
  have times: "transfer_selection_times (\<lambda>z. Inr (10 - z)) ppr_ex ppt_ex
                 (0 - index_tt_lensing ptr_ex) = Inr (19/2, 19/2, 19/2)"
    by (simp add: transfer_selection_times_def ppt_ex_def ptr_ex_def)
  have fifty: "c_int (selection_sampling ppr_ex) = 50"
    by (simp add: c_int_def ppr_ex_def)
  from selection_window_normalised[where at_tau = "\<lambda>tau. Inr [1/2, 3]" and ppr = ppr_ex
         and pba = pba_ex and ppt = ppt_density and ts = "[4]" and w = "[2]" and n_tau = 1
         and ?tau0.0 = 10 and bin = 0 and sel = "[1/2]" and index_md = 0 and ptr = ptr_ex
         and index_tt = 0 and tau_of_z = "\<lambda>z. Inr (10 - z)" and t = "19/2" and t' = "19/2"
         and t_rec = 1 and n = 7]
    run norm cls
  have dens: "array_trapezoidal_integral [1/2] (nat 1) [2] = 1"
    "transfer_source_tau_size (\<lambda>z. Inr (10 - z)) ppr_ex ppt_density ptr_ex 1 10 0 0 7 = Inr 1"
    by (simp_all add: ppt_density_def ppt_ex_def ptr_ex_def)
  from selection_window_normalised[where ppr = ppr_ex and ppt = ppt_ex and ptr = ptr_ex
         and index_md = 0 and index_tt = 0 and tau_of_z = "\<lambda>z. Inr (10 - z)"
         and tau_min = "19/2" and tau_mean = "19/2" and tau_max = "19/2"
         and t_rec = 1 and ?tau0.0 = 10 and n = 7]
    lens times fifty
  have "\<exists>m. transfer_source_tau_size (\<lambda>z. Inr (10 - z)) ppr_ex ppt_ex ptr_ex 1 10 0 0 7 = Inr m
         \<and> 50 \<le> m"
    by auto
  moreover from times have "transfer_selection_times (\<lambda>z. Inr (10 - z)) ppr_ex ppt_ex 0
                            = Inr (19/2, 19/2, 19/2)"
    by (simp add: ptr_ex_def)
  ultimately show ?thesis using run norm cls lens dens by simp
qed


text \<open>Against the claim as it was stated: the galaxy-lensing type of \<open>ppt_ex\<close>, whose
  window is a Dirac at the redshift \<open>1/2\<close>. The three times of the bin coincide and the
  routine returns 60 sampled times, the number that the Bessel functions need; the
  source of this type spreads from the bin up to today.\<close>

theorem transfer_source_tau_size_dirac_lensing:
  "selection ppt_ex = dirac \<and> scalars ppt_ex 0 \<and> is_lensing ppt_ex ptr_ex 0
   \<and> transfer_selection_times (\<lambda>z. Inr (10 - z)) ppr_ex ppt_ex 0 = Inr (19/2, 19/2, 19/2)
   \<and> transfer_source_tau_size (\<lambda>z. Inr (10 - z)) ppr_ex ppt_ex ptr_ex 1 10 0 0 7 = Inr 60"
  by (simp add: transfer_source_tau_size_def transfer_selection_times_def scalars_def
        tensors_def is_lensing_def c_int_def ppt_ex_def ptr_ex_def ppr_ex_def)

section \<open>The Limber approximation\<close>

text \<open>The quadratic of \<open>array_interpolate_parabola\<close> goes through the three points it is
  given.\<close>

lemma array_interpolate_parabola_fits:
  assumes "x1 \<noteq> x2" "x1 \<noteq> x3" "x2 \<noteq> x3"
  shows "array_interpolate_parabola x1 x2 x3 x1 y1 y2 y3 = y1"
    and "array_interpolate_parabola x1 x2 x3 x2 y1 y2 y3 = y2"
    and "array_interpolate_parabola x1 x2 x3 x3 y1 y2 y3 = y3"
  using assms by (simp_all add: array_interpolate_parabola_def)


text \<open>The search of the index, one pass at a time.\<close>

declare limber_index.simps [simp del]

lemma limber_index_stop:
  "\<not> (ts ! nat index_tau > x \<and> index_tau < n_tau - 2) \<Longrightarrow>
   limber_index ts x n_tau index_tau = index_tau"
  by (subst limber_index.simps) auto

lemma limber_index_step:
  "ts ! nat index_tau > x \<and> index_tau < n_tau - 2 \<Longrightarrow>
   limber_index ts x n_tau index_tau = limber_index ts x n_tau (index_tau + 1)"
  by (subst limber_index.simps) simp

lemma limber_index_bracket:
  assumes "1 \<le> index_tau" and "index_tau \<le> n_tau - 2"
    and "\<forall>j. 1 \<le> j \<and> j < index_tau \<longrightarrow> ts ! nat j > x"
  shows "index_tau \<le> limber_index ts x n_tau index_tau
       \<and> limber_index ts x n_tau index_tau \<le> n_tau - 2
       \<and> (\<forall>j. 1 \<le> j \<and> j < limber_index ts x n_tau index_tau \<longrightarrow> ts ! nat j > x)
       \<and> (limber_index ts x n_tau index_tau < n_tau - 2
            \<longrightarrow> ts ! nat (limber_index ts x n_tau index_tau) \<le> x)"
  using assms
proof (induction ts x n_tau index_tau rule: limber_index.induct)
  case (1 ts x n_tau index_tau)
  show ?case
  proof (cases "ts ! nat index_tau > x \<and> index_tau < n_tau - 2")
    case False
    then have "limber_index ts x n_tau index_tau = index_tau" by (rule limber_index_stop)
    with False "1.prems" show ?thesis by auto
  next
    case True
    then have eq: "limber_index ts x n_tau index_tau = limber_index ts x n_tau (index_tau + 1)"
      by (rule limber_index_step)
    have "\<forall>j. 1 \<le> j \<and> j < index_tau + 1 \<longrightarrow> ts ! nat j > x"
    proof (intro allI impI)
      fix j assume "1 \<le> j \<and> j < index_tau + 1"
      then have "j < index_tau \<or> j = index_tau" by auto
      with True "1.prems"(3) \<open>1 \<le> j \<and> j < index_tau + 1\<close> show "ts ! nat j > x" by auto
    qed
    with "1.IH"[OF True] "1.prems" True eq show ?thesis by simp
  qed
qed


text \<open>
  Claim C3, as the code has it. With at least three time samples, \<^verbatim>\<open>transfer_limber\<close>
  takes \<open>(l + 1/2) / k\<close> for \<^verbatim>\<open>tau0-tau\<close>. It returns 0 when that is above the first
  sample or below the last. Otherwise it finds the index \<open>i\<close>, between 1 and
  \<^verbatim>\<open>tau_size-2\<close>, such that the samples of index 1 to \<open>i - 1\<close> are above \<open>(l + 1/2) / k\<close>
  and, unless \<open>i\<close> is \<^verbatim>\<open>tau_size-2\<close>, the sample of index \<open>i\<close> is not; it returns
  \<open>sqrt (pi / (2 l + 1))\<close> times the fitted value divided by \<open>l + 1/2\<close>, where the
  quadratic is fitted at the samples \<open>i - 1\<close>, \<open>i\<close>, \<open>i + 1\<close> to the product of the source
  and \<^verbatim>\<open>tau0-tau\<close>, except when \<open>i\<close> is \<^verbatim>\<open>tau_size-2\<close>: then the third ordinate is the
  product at the sample \<open>i\<close>, not at the last sample.
\<close>

theorem transfer_limber_value:
  assumes "3 \<le> n_tau"
  shows "((l + 1/2) / k > ts ! 0 \<or> (l + 1/2) / k < ts ! nat (n_tau - 1)
            \<longrightarrow> transfer_limber n_tau l k ts ss = 0)
     \<and> (\<not> ((l + 1/2) / k > ts ! 0 \<or> (l + 1/2) / k < ts ! nat (n_tau - 1)) \<longrightarrow>
          (\<exists>i. i = limber_index ts ((l + 1/2) / k) n_tau 1
             \<and> 1 \<le> i \<and> i \<le> n_tau - 2
             \<and> (\<forall>j. 1 \<le> j \<and> j < i \<longrightarrow> ts ! nat j > (l + 1/2) / k)
             \<and> (i < n_tau - 2 \<longrightarrow> ts ! nat i \<le> (l + 1/2) / k)
             \<and> transfer_limber n_tau l k ts ss =
                 sqrt (pi / (2 * l + 1))
                 * (if i < n_tau - 2 then parabola_of_product ts ss i ((l + 1/2) / k)
                    else array_interpolate_parabola
                           (ts ! nat (i - 1)) (ts ! nat i) (ts ! nat (i + 1)) ((l + 1/2) / k)
                           (ss ! nat (i - 1) * ts ! nat (i - 1))
                           (ss ! nat i * ts ! nat i)
                           (ss ! nat i * ts ! nat i))
                 / (l + 1/2)))"
proof -
  have "1 \<le> (1::int)" "1 \<le> n_tau - 2" "\<forall>j. 1 \<le> j \<and> j < (1::int) \<longrightarrow> ts ! nat j > (l + 1/2) / k"
    using assms by auto
  from limber_index_bracket[OF this]
  show ?thesis
    by (auto simp: transfer_limber_def parabola_of_product_def Let_def)
qed


text \<open>The theorem at five samples from 4 down to 0 with a source equal to 1: at
  \<open>l = 2\<close>, \<open>k = 1\<close> the index is 2 and the product, the identity, is fitted exactly; at
  \<open>l = 10\<close> the time is out of the range.\<close>

theorem transfer_limber_value_witness:
  "(3::int) \<le> 5
   \<and> limber_index [4, 3, 2, 1, 0] ((2 + 1/2) / 1) 5 1 = 2
   \<and> transfer_limber 5 2 1 [4, 3, 2, 1, 0] [1, 1, 1, 1, 1] = sqrt (pi / 5)
   \<and> transfer_limber 5 10 1 [4, 3, 2, 1, 0] [1, 1, 1, 1, 1] = 0"
proof -
  have i: "limber_index [4, 3, 2, 1, 0] ((2 + 1/2) / 1) 5 1 = 2"
    by (simp add: limber_index.simps)
  have three: "(3::int) \<le> 5" by simp
  from transfer_limber_value[OF three, where l = 2 and k = 1 and ts = "[4, 3, 2, 1, 0]"
         and ss = "[1, 1, 1, 1, 1]"]
    transfer_limber_value[OF three, where l = 10 and k = 1 and ts = "[4, 3, 2, 1, 0]"
         and ss = "[1, 1, 1, 1, 1]"] i
  show ?thesis
    by (simp add: parabola_of_product_def array_interpolate_parabola_def)
qed


text \<open>Against the claim as it was stated: with the samples 2, 1, 0 and a source equal to
  1, at \<open>l = 1\<close>, \<open>k = 1\<close> the index is 1, the last but one, and the value returned is not
  the one of the quadratic fitted to the product at the three samples.\<close>

theorem transfer_limber_last_interval:
  "limber_index [2, 1, 0] ((1 + 1/2) / 1) 3 1 = 1
   \<and> transfer_limber 3 1 1 [2, 1, 0] [1, 1, 1] = sqrt (pi / 3) * (11/8) / (3/2)
   \<and> sqrt (pi / (2 * 1 + 1)) * parabola_of_product [2, 1, 0] [1, 1, 1] 1 ((1 + 1/2) / 1)
       / (1 + 1/2) = sqrt (pi / 3)
   \<and> transfer_limber 3 1 1 [2, 1, 0] [1, 1, 1]
       \<noteq> sqrt (pi / (2 * 1 + 1)) * parabola_of_product [2, 1, 0] [1, 1, 1] 1 ((1 + 1/2) / 1)
           / (1 + 1/2)"
proof -
  have i: "limber_index [2, 1, 0] ((1 + 1/2) / 1) 3 1 = 1" by (simp add: limber_index.simps)
  have a: "transfer_limber 3 1 1 [2, 1, 0] [1, 1, 1] = sqrt (pi / 3) * (11/8) / (3/2)"
    using i by (simp add: transfer_limber_def array_interpolate_parabola_def)
  have b: "sqrt (pi / (2 * 1 + 1)) * parabola_of_product [2, 1, 0] [1, 1, 1] 1 ((1 + 1/2) / 1)
       / (1 + 1/2) = sqrt (pi / 3)"
    by (simp add: parabola_of_product_def array_interpolate_parabola_def)
  have "sqrt (pi / 3) \<noteq> 0" by simp
  then have c: "sqrt (pi / 3) * (11/8) / (3/2) \<noteq> sqrt (pi / 3)" by simp
  show ?thesis
    unfolding b using i a c by (simp only: simp_thms)
qed

section \<open>The convolution with the radial kernel\<close>

text \<open>Where the three loops on \<^verbatim>\<open>index_tau_max\<close> stop.\<close>

lemma nat_one_plus_int: "nat (1 + int n) = Suc n"
  by (simp add: nat_add_distrib)

lemma index_tau_bessel_props:
  assumes "\<not> ts ! 0 < b"
  shows "0 \<le> index_tau_bessel ts b n \<and> index_tau_bessel ts b n \<le> int n
         \<and> \<not> ts ! nat (index_tau_bessel ts b n) < b
         \<and> (index_tau_bessel ts b n = int n \<longleftrightarrow> \<not> ts ! n < b)"
  using assms by (induction n) (auto simp: nat_one_plus_int)

lemma index_tau_source_props:
  "index_tau_source ss n = Some i \<Longrightarrow> i \<le> n \<and> ss ! i \<noteq> 0 \<and> (i = n \<longleftrightarrow> ss ! n \<noteq> 0)"
  by (induction n) (auto split: if_splits)

lemma index_tau_source_here:
  "ss ! n \<noteq> 0 \<Longrightarrow> index_tau_source ss n = Some n"
  by (cases n) auto

lemma index_tau_cut_props:
  "index_tau_cut ts c n = Some i \<Longrightarrow> i \<le> n \<and> \<not> ts ! i < c \<and> (i = n \<longleftrightarrow> \<not> ts ! n < c)"
  by (induction n) (auto split: if_splits)

lemma index_tau_cut_here:
  "\<not> ts ! n < c \<Longrightarrow> index_tau_cut ts c n = Some n"
  by (cases n) auto


text \<open>The test before the subtraction, \<^verbatim>\<open>index_tau_max != tau_size-1\<close> and
  \<^verbatim>\<open>index_tau_max == index_tau_max_Bessel\<close>, says that the range is cut short by the
  bound of the kernel and by nothing else.\<close>

lemma bessel_truncation_iff:
  assumes over: "\<not> tau0_minus_tau ptw ! 0 < b" and size: "1 \<le> tau_size ptw"
    and kept: "retained_index ptw b = Some index_tau_max"
  shows "int index_tau_max \<noteq> tau_size ptw - 1
           \<and> int index_tau_max
               = index_tau_bessel (tau0_minus_tau ptw) b (nat (tau_size ptw - 1))
         \<longleftrightarrow> bessel_truncation ptw b"
proof -
  let ?n = "nat (tau_size ptw - 1)"
  let ?ib = "index_tau_bessel (tau0_minus_tau ptw) b ?n"
  from index_tau_bessel_props[OF over, of ?n]
  have ib: "0 \<le> ?ib" "?ib \<le> int ?n" "?ib = int ?n \<longleftrightarrow> \<not> tau0_minus_tau ptw ! ?n < b"
    by auto
  have n: "int ?n = tau_size ptw - 1" using size by simp
  from kept obtain i where
    src: "index_tau_source (sources ptw) (nat ?ib) = Some i"
    and cut: "(if neglect_late_source ptw
               then index_tau_cut (tau0_minus_tau ptw) (tau0_minus_tau_cut ptw) i
               else Some i) = Some index_tau_max"
    by (auto simp: retained_index_def split: option.splits)
  from index_tau_source_props[OF src]
  have i: "i \<le> nat ?ib" "i = nat ?ib \<longleftrightarrow> sources ptw ! nat ?ib \<noteq> 0" by auto
  have m: "index_tau_max \<le> i"
    "index_tau_max = i \<longleftrightarrow>
       (neglect_late_source ptw \<longrightarrow> \<not> tau0_minus_tau ptw ! i < tau0_minus_tau_cut ptw)"
    using cut index_tau_cut_props[of "tau0_minus_tau ptw" "tau0_minus_tau_cut ptw" i index_tau_max]
    by (auto split: if_splits)
  have "int index_tau_max = ?ib \<longleftrightarrow> index_tau_max = nat ?ib" using ib by auto
  also have "\<dots> \<longleftrightarrow> i = nat ?ib \<and> index_tau_max = i" using m i by auto
  finally have eq: "int index_tau_max = ?ib \<longleftrightarrow>
      sources ptw ! nat ?ib \<noteq> 0
      \<and> (neglect_late_source ptw \<longrightarrow>
            \<not> tau0_minus_tau ptw ! nat ?ib < tau0_minus_tau_cut ptw)"
    using i m by auto
  have "int index_tau_max \<noteq> tau_size ptw - 1 \<and> int index_tau_max = ?ib
        \<longleftrightarrow> ?ib \<noteq> int ?n \<and> int index_tau_max = ?ib"
    using n by auto
  with eq ib(3) show ?thesis unfolding bessel_truncation_def by auto
qed


text \<open>
  Claim C2. Let \<open>b\<close> be the smallest \<^verbatim>\<open>tau0-tau\<close> at which the kernel is known. The time
  samples are stored from the largest \<^verbatim>\<open>tau0-tau\<close> down, so the first one is the largest.
  \<^item> When \<open>b\<close> is greater than or equal to the first sample, \<^verbatim>\<open>transfer_integrate\<close>
    returns 0.
  \<^item> Otherwise, for a single sample, it returns the source at that sample times the
    kernel evaluated at that one point (or the failure of the evaluation), without
    quadrature.
  \<^item> Otherwise it returns 0 when no sample is left after the three loops, and else the
    trapezoidal convolution over the samples up to the last one left, minus the triangle
    \<open>1/2 (t\<^sub>i\<^sub>+\<^sub>1 - b) r\<^sub>i s\<^sub>i\<close> exactly when the range is cut short by the bound of the
    kernel and not by the source vanishing (nor by the cut of late times).
\<close>

theorem transfer_integrate_cases:
  assumes b: "b = tau0_minus_tau_min_bessel ptr ptw index_q l index_l k"
    and ty: "radial_type = transfer_select_radial_function ppt ptr index_md index_tt"
    and size: "1 \<le> tau_size ptw"
  shows "(b \<ge> tau0_minus_tau ptw ! 0 \<longrightarrow>
            transfer_integrate radial ppt ptr ptw index_q index_md index_tt l index_l k = Inr 0)
     \<and> (b < tau0_minus_tau ptw ! 0 \<and> tau_size ptw = 1 \<longrightarrow>
            transfer_integrate radial ppt ptr ptw index_q index_md index_tt l index_l k
            = (case radial radial_type 1 of
                 Inl e \<Rightarrow> Inl e
               | Inr bessel \<Rightarrow> Inr (sources ptw ! 0 * bessel ! 0)))
     \<and> (b < tau0_minus_tau ptw ! 0 \<and> tau_size ptw \<noteq> 1 \<longrightarrow>
            transfer_integrate radial ppt ptr ptw index_q index_md index_tt l index_l k
            = (case retained_index ptw b of
                 None \<Rightarrow> Inr 0
               | Some index_tau_max \<Rightarrow>
                   (case radial radial_type (int index_tau_max + 1) of
                      Inl e \<Rightarrow> Inl e
                    | Inr radial_function \<Rightarrow>
                        Inr (array_trapezoidal_convolution (sources ptw) radial_function
                               (index_tau_max + 1) (w_trapz ptw)
                             - (if bessel_truncation ptw b
                                then 1/2 * (tau0_minus_tau ptw ! (index_tau_max + 1) - b)
                                     * radial_function ! index_tau_max
                                     * sources ptw ! index_tau_max
                                else 0)))))"
proof (intro conjI impI)
  assume "b \<ge> tau0_minus_tau ptw ! 0"
  then show "transfer_integrate radial ppt ptr ptw index_q index_md index_tt l index_l k = Inr 0"
    using b by (simp add: transfer_integrate_def)
next
  assume "b < tau0_minus_tau ptw ! 0 \<and> tau_size ptw = 1"
  then show "transfer_integrate radial ppt ptr ptw index_q index_md index_tt l index_l k
            = (case radial radial_type 1 of
                 Inl e \<Rightarrow> Inl e
               | Inr bessel \<Rightarrow> Inr (sources ptw ! 0 * bessel ! 0))"
    using b ty by (simp add: transfer_integrate_def)
next
  assume a: "b < tau0_minus_tau ptw ! 0 \<and> tau_size ptw \<noteq> 1"
  then have over: "\<not> tau0_minus_tau ptw ! 0 < b" by simp
  let ?ib = "index_tau_bessel (tau0_minus_tau ptw) b (nat (tau_size ptw - 1))"
  show "transfer_integrate radial ppt ptr ptw index_q index_md index_tt l index_l k
            = (case retained_index ptw b of
                 None \<Rightarrow> Inr 0
               | Some index_tau_max \<Rightarrow>
                   (case radial radial_type (int index_tau_max + 1) of
                      Inl e \<Rightarrow> Inl e
                    | Inr radial_function \<Rightarrow>
                        Inr (array_trapezoidal_convolution (sources ptw) radial_function
                               (index_tau_max + 1) (w_trapz ptw)
                             - (if bessel_truncation ptw b
                                then 1/2 * (tau0_minus_tau ptw ! (index_tau_max + 1) - b)
                                     * radial_function ! index_tau_max
                                     * sources ptw ! index_tau_max
                                else 0))))"
  proof (cases "retained_index ptw b")
    case None
    with a b show ?thesis
      by (auto simp: transfer_integrate_def retained_index_def Let_def split: option.splits)
  next
    case (Some index_tau_max)
    from bessel_truncation_iff[OF over size Some]
    have iff: "int index_tau_max \<noteq> tau_size ptw - 1 \<and> int index_tau_max = ?ib
               \<longleftrightarrow> bessel_truncation ptw b" .
    from Some a b ty have "transfer_integrate radial ppt ptr ptw index_q index_md index_tt l index_l k
      = (case radial radial_type (int index_tau_max + 1) of
           Inl e \<Rightarrow> Inl e
         | Inr radial_function \<Rightarrow>
             (let trsf = array_trapezoidal_convolution (sources ptw)
                           radial_function (index_tau_max + 1) (w_trapz ptw)
              in if int index_tau_max \<noteq> tau_size ptw - 1 \<and> int index_tau_max = ?ib
                 then Inr (trsf - 1/2 * (tau0_minus_tau ptw ! (index_tau_max + 1) - b)
                                   * radial_function ! index_tau_max
                                   * sources ptw ! index_tau_max)
                 else Inr trsf))"
      by (auto simp: transfer_integrate_def retained_index_def Let_def split: option.splits)
    also have "\<dots> = (case radial radial_type (int index_tau_max + 1) of
                      Inl e \<Rightarrow> Inl e
                    | Inr radial_function \<Rightarrow>
                        Inr (array_trapezoidal_convolution (sources ptw) radial_function
                               (index_tau_max + 1) (w_trapz ptw)
                             - (if bessel_truncation ptw b
                                then 1/2 * (tau0_minus_tau ptw ! (index_tau_max + 1) - b)
                                     * radial_function ! index_tau_max
                                     * sources ptw ! index_tau_max
                                else 0)))"
      unfolding iff by (simp add: Let_def split: sum.splits)
    finally show ?thesis using Some by simp
  qed
qed


text \<open>The theorem at \<open>ptw_ex\<close> with a kernel equal to 1: no overlap when the kernel starts
  at 3; a single sample with source 5 and kernel 2; the three samples, where the last is
  below the bound \<open>3/2\<close> and the triangle \<open>- 1/4\<close> is subtracted from the sum 3; and a
  source that vanishes at the last two samples, where nothing is subtracted.\<close>

theorem transfer_integrate_cases_witness:
  "tau0_minus_tau_min_bessel ptr_ex ptw_ex 0 2 0 1 = 3/2
   \<and> transfer_integrate (\<lambda>ty n. Inr (replicate (nat n) 1)) ppt_ex ptr_ex
        (ptw_ex\<lparr>pBIS_chi_at_phimin := [3]\<rparr>) 0 0 0 2 0 1 = Inr 0
   \<and> transfer_integrate (\<lambda>ty n. Inr (replicate (nat n) 2)) ppt_ex ptr_ex
        (ptw_ex\<lparr>tau_size := 1, sources := [5]\<rparr>) 0 0 0 2 0 1 = Inr 10
   \<and> bessel_truncation ptw_ex (3/2) \<and> retained_index ptw_ex (3/2) = Some 1
   \<and> transfer_integrate (\<lambda>ty n. Inr (replicate (nat n) 1)) ppt_ex ptr_ex ptw_ex 0 0 0 2 0 1
       = Inr (13/4)
   \<and> \<not> bessel_truncation (ptw_ex\<lparr>sources := [1, 0, 0]\<rparr>) (3/2)
   \<and> transfer_integrate (\<lambda>ty n. Inr (replicate (nat n) 1)) ppt_ex ptr_ex
        (ptw_ex\<lparr>sources := [1, 0, 0]\<rparr>) 0 0 0 2 0 1 = Inr 1"
proof -
  have b: "tau0_minus_tau_min_bessel ptr_ex ptw_ex 0 2 0 1 = 3/2"
    "tau0_minus_tau_min_bessel ptr_ex (ptw_ex\<lparr>pBIS_chi_at_phimin := [3]\<rparr>) 0 2 0 1 = 3"
    "tau0_minus_tau_min_bessel ptr_ex (ptw_ex\<lparr>tau_size := 1, sources := [5]\<rparr>) 0 2 0 1 = 3/2"
    "tau0_minus_tau_min_bessel ptr_ex (ptw_ex\<lparr>sources := [1, 0, 0]\<rparr>) 0 2 0 1 = 3/2"
    by (simp_all add: tau0_minus_tau_min_bessel_def ptw_ex_def)
  have two: "Suc (Suc 0) = 2" by simp
  have t: "bessel_truncation ptw_ex (3/2)" "retained_index ptw_ex (3/2) = Some 1"
    "\<not> bessel_truncation (ptw_ex\<lparr>sources := [1, 0, 0]\<rparr>) (3/2)"
    "retained_index (ptw_ex\<lparr>sources := [1, 0, 0]\<rparr>) (3/2) = Some 0"
    by (simp_all add: bessel_truncation_def retained_index_def ptw_ex_def two[symmetric])
  from transfer_integrate_cases[OF b(2)[symmetric] refl,
         where ppt = ppt_ex and index_md = 0 and index_tt = 0
           and radial = "\<lambda>ty n. Inr (replicate (nat n) 1)"]
    transfer_integrate_cases[OF b(3)[symmetric] refl,
         where ppt = ppt_ex and index_md = 0 and index_tt = 0
           and radial = "\<lambda>ty n. Inr (replicate (nat n) 2)"]
    transfer_integrate_cases[OF b(1)[symmetric] refl,
         where ppt = ppt_ex and index_md = 0 and index_tt = 0
           and radial = "\<lambda>ty n. Inr (replicate (nat n) 1)"]
    transfer_integrate_cases[OF b(4)[symmetric] refl,
         where ppt = ppt_ex and index_md = 0 and index_tt = 0
           and radial = "\<lambda>ty n. Inr (replicate (nat n) 1)"]
    b t
  show ?thesis
    by (simp add: ptw_ex_def array_trapezoidal_convolution_def two[symmetric])
qed

section \<open>The multipoles\<close>

declare l_fill_log_loop.simps [simp del] l_count_log_loop.simps [simp del]

lemma l_log_increment_pos: "1 \<le> l_log_increment ppr ptr current_l"
  by (simp add: l_log_increment_def)

lemma strictly_increasing_snoc:
  fixes ls :: "int list"
  assumes "sorted_wrt (<) ls" and "ls \<noteq> []" and "last ls < x"
  shows "sorted_wrt (<) (ls @ [x])"
proof -
  have "y \<le> last ls" if "y \<in> set ls" for y
    using assms(1,2) that
  proof (induction ls)
    case Nil
    then show ?case by simp
  next
    case (Cons a ls)
    then show ?case by (cases "ls = []") (auto intro: less_imp_le order_trans)
  qed
  with assms show ?thesis by (fastforce simp: sorted_wrt_append)
qed

lemma l_extends_refl: "ls \<noteq> [] \<Longrightarrow> l_extends l_max ls ls"
  by (simp add: l_extends_def)

lemma l_extends_step:
  assumes "ls \<noteq> []" and "1 \<le> increment" and "last ls + increment \<le> l_max"
    and "l_extends l_max (ls @ [last ls + increment]) ls'"
  shows "l_extends l_max ls ls'"
proof -
  have "sorted_wrt (<) (ls @ [last ls + increment])" if "sorted_wrt (<) ls"
    using strictly_increasing_snoc[OF that assms(1), of "last ls + increment"] assms(2) by simp
  with assms show ?thesis unfolding l_extends_def by auto
qed

lemma l_fill_log_loop_extends:
  "ls \<noteq> [] \<Longrightarrow> l_extends l_max ls (l_fill_log_loop ppr ptr l_max ls)"
proof (induction ppr ptr l_max ls rule: l_fill_log_loop.induct)
  case (1 ppr ptr l_max ls)
  let ?inc = "l_log_increment ppr ptr (last ls)"
  show ?case
  proof (cases "last ls + ?inc < l_max
                \<and> real_of_int ?inc < real_of_int (l_linstep ppr) * angular_rescaling ptr")
    case False
    then have "l_fill_log_loop ppr ptr l_max ls = ls"
      by (subst l_fill_log_loop.simps) (auto simp: Let_def)
    with "1.prems" show ?thesis by (simp add: l_extends_refl)
  next
    case True
    then have eq: "l_fill_log_loop ppr ptr l_max ls
                   = l_fill_log_loop ppr ptr l_max (ls @ [last ls + ?inc])"
      by (subst l_fill_log_loop.simps) (simp add: Let_def)
    from "1.IH"[OF refl] True
    have "l_extends l_max (ls @ [last ls + ?inc]) (l_fill_log_loop ppr ptr l_max ls)"
      unfolding eq by simp
    from l_extends_step[OF "1.prems" l_log_increment_pos _ this] True show ?thesis by simp
  qed
qed

lemma l_count_log_loop_fill:
  "ls \<noteq> [] \<Longrightarrow>
   l_count_log_loop ppr ptr l_max (index_l, last ls)
   = (index_l + int (length (l_fill_log_loop ppr ptr l_max ls)) - int (length ls),
      last (l_fill_log_loop ppr ptr l_max ls))"
proof (induction ppr ptr l_max ls arbitrary: index_l rule: l_fill_log_loop.induct)
  case (1 ppr ptr l_max ls)
  let ?inc = "l_log_increment ppr ptr (last ls)"
  show ?case
  proof (cases "last ls + ?inc < l_max
                \<and> real_of_int ?inc < real_of_int (l_linstep ppr) * angular_rescaling ptr")
    case False
    then have "l_fill_log_loop ppr ptr l_max ls = ls"
      by (subst l_fill_log_loop.simps) (auto simp: Let_def)
    moreover from False have "l_count_log_loop ppr ptr l_max (index_l, last ls)
                              = (index_l, last ls)"
      by (subst l_count_log_loop.simps) (auto simp: Let_def)
    ultimately show ?thesis by simp
  next
    case True
    then have eq: "l_fill_log_loop ppr ptr l_max ls
                   = l_fill_log_loop ppr ptr l_max (ls @ [last ls + ?inc])"
      by (subst l_fill_log_loop.simps) (simp add: Let_def)
    from True have "l_count_log_loop ppr ptr l_max (index_l, last ls)
                    = l_count_log_loop ppr ptr l_max (index_l + 1, last ls + ?inc)"
      by (subst l_count_log_loop.simps) (simp add: Let_def)
    also have "\<dots> = l_count_log_loop ppr ptr l_max
                       (index_l + 1, last (ls @ [last ls + ?inc]))" by simp
    also have "\<dots> = (index_l + 1
                       + int (length (l_fill_log_loop ppr ptr l_max (ls @ [last ls + ?inc])))
                       - int (length (ls @ [last ls + ?inc])),
                      last (l_fill_log_loop ppr ptr l_max (ls @ [last ls + ?inc])))"
      using "1.IH"[OF refl, of "index_l + 1"] True by simp
    finally show ?thesis unfolding eq by simp
  qed
qed

lemma l_lin_loops:
  assumes "1 \<le> increment" and "ls \<noteq> []"
  shows "\<exists>ls'. l_fill_lin_loop increment l_max ls = Some ls' \<and> l_extends l_max ls ls'
           \<and> \<not> last ls' + increment \<le> l_max
           \<and> l_count_lin_loop increment l_max (index_l, last ls)
               = Some (index_l + int (length ls') - int (length ls), last ls')"
  using assms(2)
proof (induction "nat (l_max - last ls)" arbitrary: ls index_l rule: less_induct)
  case less
  show ?case
  proof (cases "last ls + increment \<le> l_max")
    case False
    then have "l_fill_lin_loop increment l_max ls = Some ls"
      by (subst l_fill_lin_loop.simps) simp
    moreover from False have "l_count_lin_loop increment l_max (index_l, last ls)
                              = Some (index_l, last ls)"
      by (subst l_count_lin_loop.simps) simp
    ultimately show ?thesis using False less.prems by (simp add: l_extends_refl)
  next
    case True
    let ?ls = "ls @ [last ls + increment]"
    have "nat (l_max - last ?ls) < nat (l_max - last ls)" using True assms(1) by simp
    from less.hyps[OF this, of "index_l + 1"] obtain ls' where
      ls': "l_fill_lin_loop increment l_max ?ls = Some ls'" "l_extends l_max ?ls ls'"
        "\<not> last ls' + increment \<le> l_max"
        "l_count_lin_loop increment l_max (index_l + 1, last ?ls)
         = Some (index_l + 1 + int (length ls') - int (length ?ls), last ls')"
      by auto
    have "l_fill_lin_loop increment l_max ls = Some ls'"
      using True ls'(1) by (subst l_fill_lin_loop.simps) simp
    moreover have "l_count_lin_loop increment l_max (index_l, last ls)
                   = Some (index_l + int (length ls') - int (length ls), last ls')"
      using True ls'(4) by (subst l_count_lin_loop.simps) simp
    moreover have "l_extends l_max ls ls'"
      by (rule l_extends_step[OF less.prems assms(1) True ls'(2)])
    ultimately show ?thesis using ls'(3) by simp
  qed
qed


text \<open>The two passes agree, and the list they build.\<close>

lemma l_list_fill_count:
  assumes "1 \<le> l_lin_increment ppr ptr"
  shows "\<exists>ls. l_list_fill ppr ptr l_max = Some ls
           \<and> l_list_count ppr ptr l_max = Some (int (length ls))
           \<and> ls \<noteq> [] \<and> hd ls = 2 \<and> last ls = l_max
           \<and> (2 \<le> l_max \<longrightarrow> sorted_wrt (<) ls)"
proof -
  let ?ls1 = "l_fill_log_loop ppr ptr l_max [2]"
  have e1: "l_extends l_max [2] ?ls1" by (rule l_fill_log_loop_extends) simp
  then have ne1: "?ls1 \<noteq> []" by (simp add: l_extends_def)
  have c1: "l_count_log_loop ppr ptr l_max (0, 2) = (int (length ?ls1) - 1, last ?ls1)"
    using l_count_log_loop_fill[of "[2]" ppr ptr l_max 0] by simp
  from l_lin_loops[OF assms ne1, of l_max "int (length ?ls1) - 1"] obtain ls2 where
    ls2: "l_fill_lin_loop (l_lin_increment ppr ptr) l_max ?ls1 = Some ls2"
      "l_extends l_max ?ls1 ls2"
      "l_count_lin_loop (l_lin_increment ppr ptr) l_max (int (length ?ls1) - 1, last ?ls1)
       = Some (int (length ls2) - 1, last ls2)"
    by auto
  let ?ls = "if last ls2 \<noteq> l_max then ls2 @ [l_max] else ls2"
  have fill: "l_list_fill ppr ptr l_max = Some ?ls"
    using ls2(1) by (simp add: l_list_fill_def)
  have count: "l_list_count ppr ptr l_max = Some (int (length ?ls))"
    using c1 ls2(3) by (simp add: l_list_count_def)
  from e1 ls2(2) obtain ext where ext: "ls2 = [2] @ ext" and ne2: "ls2 \<noteq> []"
    by (auto simp: l_extends_def)
  have hd: "hd ?ls = 2" using ext by simp
  have last: "last ?ls = l_max" by simp
  have sorted: "sorted_wrt (<) ?ls" if "2 \<le> l_max"
  proof -
    from e1 ls2(2) that have s2: "sorted_wrt (<) ls2" and le: "last ls2 \<le> l_max"
      by (auto simp: l_extends_def)
    show ?thesis
    proof (cases "last ls2 = l_max")
      case True
      with s2 show ?thesis by simp
    next
      case False
      with le have "last ls2 < l_max" by simp
      from strictly_increasing_snoc[OF s2 ne2 this] False show ?thesis by simp
    qed
  qed
  from fill count hd last sorted ne2 show ?thesis by (intro exI[of _ ?ls]) auto
qed

lemma l_first_index_bound:
  "i \<le> l_first_index ls l_max i \<and> l_first_index ls l_max i \<le> i + int (length ls)
   \<and> (ls \<noteq> [] \<and> l_max \<le> last ls \<longrightarrow> l_first_index ls l_max i < i + int (length ls))"
  by (induction ls l_max i rule: l_first_index.induct) (auto split: if_splits)

lemma type_tests_update [simp]:
  "is_temperature ppt (ptr\<lparr>l_size_max := n, ptr_l := ls\<rparr>) index_tt
   = is_temperature ppt ptr index_tt"
  "is_polarization_e ppt (ptr\<lparr>l_size_max := n, ptr_l := ls\<rparr>) index_tt
   = is_polarization_e ppt ptr index_tt"
  "is_lcmb ppt (ptr\<lparr>l_size_max := n, ptr_l := ls\<rparr>) index_tt = is_lcmb ppt ptr index_tt"
  "is_density ppt (ptr\<lparr>l_size_max := n, ptr_l := ls\<rparr>) index_tt = is_density ppt ptr index_tt"
  "is_lensing ppt (ptr\<lparr>l_size_max := n, ptr_l := ls\<rparr>) index_tt = is_lensing ppt ptr index_tt"
  by (simp_all add: is_temperature_def is_polarization_e_def is_lcmb_def is_density_def
        is_lensing_def)

lemma l_list_type_l_max_update [simp]:
  "l_list_type_l_max ppt (ptr\<lparr>l_size_max := n, ptr_l := ls\<rparr>) index_md index_tt l_max
   = l_list_type_l_max ppt ptr index_md index_tt l_max"
  by (simp add: l_list_type_l_max_def)

lemma l_max_determined_update [simp]:
  "l_max_determined ppt (ptr\<lparr>l_size_max := n, ptr_l := ls\<rparr>) index_md index_tt
   = l_max_determined ppt ptr index_md index_tt"
  by (simp add: l_max_determined_def)

lemma l_list_type_l_max_determined:
  assumes "l_max_determined ppt ptr index_md index_tt"
  shows "l_list_type_l_max ppt ptr index_md index_tt l_max
         = l_list_type_l_max ppt ptr index_md index_tt 0"
proof (cases "tensors ppt index_md")
  case True
  then show ?thesis by (simp add: l_list_type_l_max_def)
next
  case False
  with assms have sc: "scalars ppt index_md"
    and one: "is_temperature ppt ptr index_tt \<or> is_polarization_e ppt ptr index_tt
              \<or> is_lcmb ppt ptr index_tt \<or> is_density ppt ptr index_tt
              \<or> is_lensing ppt ptr index_tt"
    by (simp_all add: l_max_determined_def)
  show ?thesis
    using one False sc
    by (cases "is_temperature ppt ptr index_tt"; cases "is_polarization_e ppt ptr index_tt";
        cases "is_lcmb ppt ptr index_tt"; cases "is_density ppt ptr index_tt";
        cases "is_lensing ppt ptr index_tt")
       (simp_all add: l_list_type_l_max_def)
qed

lemma l_list_tt_loop_rows:
  assumes "l_list_tt_loop ppt ptr index_md tts (l_max, l_size_md, row) = Inr (l_max', l_size_md', row')"
    and "ptr_l ptr \<noteq> []" and "l_size_max ptr = int (length (ptr_l ptr))"
    and "\<forall>n \<in> set row. n \<le> l_size_max ptr"
  shows "(\<forall>n \<in> set row'. n \<le> l_size_max ptr) \<and> length row' = length row + length tts"
  using assms(1,4)
proof (induction tts arbitrary: l_max l_size_md row)
  case Nil
  then show ?case by simp
next
  case (Cons index_tt tts)
  let ?lm = "l_list_type_l_max ppt ptr index_md index_tt l_max"
  let ?i = "l_first_index (ptr_l ptr) ?lm 0"
  let ?n0 = "?i + 1"
  let ?n1 = "if ?n0 < l_size_max ptr then ?n0 + 1 else ?n0"
  let ?n2 = "if ?n1 < l_size_max ptr then ?n1 + 1 else ?n1"
  from Cons.prems(1) have ok: "\<not> ?lm > ptr_l ptr ! nat (l_size_max ptr - 1)"
    and rest: "l_list_tt_loop ppt ptr index_md tts (?lm, max l_size_md ?n2, row @ [?n2])
               = Inr (l_max', l_size_md', row')"
    by (auto simp: Let_def split: if_splits)
  have "nat (int (length (ptr_l ptr)) - 1) = length (ptr_l ptr) - 1" by auto
  then have "ptr_l ptr ! nat (l_size_max ptr - 1) = last (ptr_l ptr)"
    using assms(2,3) by (simp add: last_conv_nth)
  with ok have "?lm \<le> last (ptr_l ptr)" by simp
  with l_first_index_bound[of 0 "ptr_l ptr" ?lm] assms(2,3)
  have "?n0 \<le> l_size_max ptr" by simp
  then have "?n2 \<le> l_size_max ptr" by simp
  with Cons.prems(2) have "\<forall>n \<in> set (row @ [?n2]). n \<le> l_size_max ptr" by simp
  from Cons.IH[OF rest this] show ?case by simp
qed

lemma l_list_md_loop_rows:
  assumes "l_list_md_loop ppt ptr mds (l_max, sizes, rows) = Inr (l_max', sizes', rows')"
    and "ptr_l ptr \<noteq> []" and "l_size_max ptr = int (length (ptr_l ptr))"
    and "\<forall>row \<in> set rows. \<forall>n \<in> set row. n \<le> l_size_max ptr"
  shows "(\<forall>row \<in> set rows'. \<forall>n \<in> set row. n \<le> l_size_max ptr)
         \<and> length rows' = length rows + length mds"
  using assms(1,4)
proof (induction mds arbitrary: l_max sizes rows)
  case Nil
  then show ?case by simp
next
  case (Cons index_md mds)
  from Cons.prems(1) obtain lm sz row where
    tt: "l_list_tt_loop ppt ptr index_md [0 .. tt_size ptr ! nat index_md - 1] (l_max, 0, [])
         = Inr (lm, sz, row)"
    and rest: "l_list_md_loop ppt ptr mds (lm, sizes @ [sz], rows @ [row])
               = Inr (l_max', sizes', rows')"
    by (auto split: sum.splits)
  from l_list_tt_loop_rows[OF tt assms(2,3)] have "\<forall>n \<in> set row. n \<le> l_size_max ptr" by simp
  with Cons.prems(2) have "\<forall>r \<in> set (rows @ [row]). \<forall>n \<in> set r. n \<le> l_size_max ptr" by simp
  from Cons.IH[OF rest this] show ?case by simp
qed

lemma l_list_tt_loop_error:
  "l_list_tt_loop ppt ptr index_md tts s = Inl e \<Longrightarrow> e = L_max_exceeds_table"
  by (induction tts arbitrary: s) (auto simp: Let_def split: if_splits prod.splits)

lemma l_list_tt_loop_fails:
  assumes "index_tt \<in> set tts" and "l_max_determined ppt ptr index_md index_tt"
    and "l_list_type_l_max ppt ptr index_md index_tt 0 > ptr_l ptr ! nat (l_size_max ptr - 1)"
  shows "l_list_tt_loop ppt ptr index_md tts s = Inl L_max_exceeds_table"
  using assms(1)
proof (induction tts arbitrary: s)
  case Nil
  then show ?case by simp
next
  case (Cons tt tts)
  obtain l_max l_size_md row where s: "s = (l_max, l_size_md, row)" by (cases s) auto
  show ?case
  proof (cases "l_list_type_l_max ppt ptr index_md tt l_max > ptr_l ptr ! nat (l_size_max ptr - 1)")
    case True
    then show ?thesis by (simp add: s)
  next
    case False
    with l_list_type_l_max_determined[OF assms(2), of l_max] assms(3)
    have "tt \<noteq> index_tt" by auto
    with Cons.prems have "index_tt \<in> set tts" by simp
    from Cons.IH[OF this] False show ?thesis by (simp add: s Let_def)
  qed
qed

lemma l_list_md_loop_fails:
  assumes "index_md \<in> set mds" and "index_tt \<in> set [0 .. tt_size ptr ! nat index_md - 1]"
    and "l_max_determined ppt ptr index_md index_tt"
    and "l_list_type_l_max ppt ptr index_md index_tt 0 > ptr_l ptr ! nat (l_size_max ptr - 1)"
  shows "l_list_md_loop ppt ptr mds s = Inl L_max_exceeds_table"
  using assms(1)
proof (induction mds arbitrary: s)
  case Nil
  then show ?case by simp
next
  case (Cons md mds)
  obtain l_max sizes rows where s: "s = (l_max, sizes, rows)" by (cases s) auto
  show ?case
  proof (cases "md = index_md")
    case True
    with l_list_tt_loop_fails[OF assms(2,3,4)] show ?thesis by (simp add: s)
  next
    case False
    with Cons.prems have "index_md \<in> set mds" by simp
    from Cons.IH[OF this] show ?thesis
      by (auto simp: s split: sum.splits dest: l_list_tt_loop_error)
  qed
qed


text \<open>The routine at \<open>ppr_ex\<close>, \<open>ppt_ex\<close> and \<open>ptr_ex\<close>: a logarithmic stretch 2, 4, 8,
  a linear one in steps of 5 and the last multipole 30 added at the end.\<close>

lemma l_lin_increment_ex: "l_lin_increment ppr_ex ptr_ex = 5"
  by (simp add: l_lin_increment_def ppr_ex_def ptr_ex_def c_int_def)

lemma l_log_increment_ex: "0 < n \<Longrightarrow> l_log_increment ppr_ex ptr_ex n = n"
  by (simp add: l_log_increment_def ppr_ex_def ptr_ex_def c_int_def)

lemma transfer_get_l_list_ex:
  "transfer_get_l_list ppr_ex ppt_ex ptr_ex
   = Some (Inr (ptr_ex\<lparr>l_size_max := 8, ptr_l := [2, 4, 8, 13, 18, 23, 28, 30],
                        l_size := [8], l_size_tt := [[8]]\<rparr>))"
proof -
  have l_max: "l_list_l_max ppt_ex = 30" by (simp add: l_list_l_max_def ppt_ex_def)
  have lin: "real_of_int (l_linstep ppr_ex) * angular_rescaling ptr_ex = 5"
    by (simp add: ppr_ex_def ptr_ex_def)
  have fill1: "l_fill_log_loop ppr_ex ptr_ex 30 [2] = [2, 4, 8]"
    by (simp add: l_fill_log_loop.simps l_log_increment_ex lin)
  have count1: "l_count_log_loop ppr_ex ptr_ex 30 (0, 2) = (2, 8)"
    by (simp add: l_count_log_loop.simps l_log_increment_ex lin)
  have fill: "l_list_fill ppr_ex ptr_ex 30 = Some [2, 4, 8, 13, 18, 23, 28, 30]"
    by (simp add: l_list_fill_def fill1 l_lin_increment_ex l_fill_lin_loop.simps)
  have count: "l_list_count ppr_ex ptr_ex 30 = Some 8"
    by (simp add: l_list_count_def count1 l_lin_increment_ex l_count_lin_loop.simps)
  show ?thesis
    by (simp add: transfer_get_l_list_def l_max fill count)
       (simp add: ppt_ex_def ptr_ex_def l_list_type_l_max_def scalars_def tensors_def
          is_temperature_def is_polarization_e_def is_lcmb_def is_density_def
          is_lensing_def upto.simps)
qed

text \<open>Below 2 no loop runs, and \<^verbatim>\<open>l_max\<close> is added after the 2.\<close>

lemma l_list_fill_below_two:
  assumes "1 \<le> l_lin_increment ppr ptr" and "l_max < 2"
  shows "l_list_fill ppr ptr l_max = Some [2, l_max]"
proof -
  have "1 \<le> l_log_increment ppr ptr 2" by (simp add: l_log_increment_def)
  with assms(2) have "l_fill_log_loop ppr ptr l_max [2] = [2]"
    by (subst l_fill_log_loop.simps) (simp add: Let_def)
  moreover have "l_fill_lin_loop (l_lin_increment ppr ptr) l_max [2] = Some [2]"
    using assms by (subst l_fill_lin_loop.simps) simp
  ultimately show ?thesis using assms(2) by (simp add: l_list_fill_def)
qed

text \<open>With an increment that is not positive the linear loop, once entered, has no end.\<close>

lemma l_count_lin_loop_returns:
  assumes "l_count_lin_loop increment l_max s = Some r"
  shows "increment \<le> 0 \<longrightarrow> l_max < snd s + increment"
  using assms
proof (induction rule: l_count_lin_loop.raw_induct[rotated 1, consumes 1])
  case (1 loop increment l_max s r)
  show ?case
  proof (cases "snd s + increment \<le> l_max")
    case False
    then show ?thesis by simp
  next
    case True
    with 1(2) have "loop increment l_max (fst s + 1, snd s + increment) = Some r" by simp
    from 1(1)[OF this] have "increment \<le> 0 \<longrightarrow> l_max < snd s + increment + increment"
      by simp
    with True show ?thesis by auto
  qed
qed

lemma transfer_get_l_list_no_return:
  assumes "l_lin_increment ppr ptr \<le> 0" and "2 \<le> l_list_l_max ppt"
  shows "transfer_get_l_list ppr ppt ptr = None"
proof -
  let ?l_max = "l_list_l_max ppt"
  let ?ls1 = "l_fill_log_loop ppr ptr ?l_max [2]"
  have "l_extends ?l_max [2] ?ls1" by (rule l_fill_log_loop_extends) simp
  with assms(2) have le: "last ?ls1 \<le> ?l_max" by (simp add: l_extends_def)
  have c1: "l_count_log_loop ppr ptr ?l_max (0, 2) = (int (length ?ls1) - 1, last ?ls1)"
    using l_count_log_loop_fill[of "[2]" ppr ptr ?l_max 0] by simp
  have "l_count_lin_loop (l_lin_increment ppr ptr) ?l_max (int (length ?ls1) - 1, last ?ls1)
        = None"
  proof (rule ccontr)
    assume "l_count_lin_loop (l_lin_increment ppr ptr) ?l_max
              (int (length ?ls1) - 1, last ?ls1) \<noteq> None"
    then obtain r where "l_count_lin_loop (l_lin_increment ppr ptr) ?l_max
              (int (length ?ls1) - 1, last ?ls1) = Some r" by auto
    from l_count_lin_loop_returns[OF this] le assms(1) show False by simp
  qed
  with c1 have "l_list_count ppr ptr ?l_max = None" by (simp add: l_list_count_def)
  then show ?thesis by (simp add: transfer_get_l_list_def)
qed

lemma transfer_get_l_list_no_return_example:
  "transfer_get_l_list (ppr_ex\<lparr>l_linstep := 0\<rparr>) ppt_ex ptr_ex = None"
proof (rule transfer_get_l_list_no_return)
  show "l_lin_increment (ppr_ex\<lparr>l_linstep := 0\<rparr>) ptr_ex \<le> 0"
    by (simp add: l_lin_increment_def c_int_def ppr_ex_def)
  show "2 \<le> l_list_l_max ppt_ex" by (simp add: l_list_l_max_def ppt_ex_def)
qed

text \<open>
  Claim C4, as the code has it. Whenever the linear step, once cast to an integer, is
  at least 1, \<^verbatim>\<open>transfer_get_l_list\<close> returns (with a smaller step and \<^verbatim>\<open>l_max\<close> at
  least 2 the loop of lines 745 and 776 has no end, lemma \<open>transfer_get_l_list_no_return\<close>). When it succeeds, the list of multipoles starts at 2 and ends
  exactly at \<^verbatim>\<open>l_max\<close>, the largest multipole over the requested spectra. It is strictly
  increasing when \<^verbatim>\<open>l_max\<close> is at least 2; when \<^verbatim>\<open>l_max\<close> is below 2 no loop runs,
  \<^verbatim>\<open>l_max\<close> is added after the 2 and the list is 2, \<^verbatim>\<open>l_max\<close>. \<^verbatim>\<open>l_size_max\<close> is the length of
  the list, there is one row of \<^verbatim>\<open>l_size_tt\<close> for each mode, and no entry of \<^verbatim>\<open>l_size_tt\<close>
  exceeds \<^verbatim>\<open>l_size_max\<close>. When the multipole needed by some type of some mode, for which
  one of the tests of the routine applies, is larger than \<^verbatim>\<open>l_max\<close>, the routine fails with
  the error of line 799.
\<close>

theorem transfer_get_l_list_grid:
  assumes inc: "1 \<le> l_lin_increment ppr ptr"
  shows "\<exists>r. transfer_get_l_list ppr ppt ptr = Some r
     \<and> (\<forall>ptr'. r = Inr ptr' \<longrightarrow>
          hd (ptr_l ptr') = 2 \<and> last (ptr_l ptr') = l_list_l_max ppt
          \<and> (2 \<le> l_list_l_max ppt \<longrightarrow> sorted_wrt (<) (ptr_l ptr'))
          \<and> (l_list_l_max ppt < 2 \<longrightarrow> ptr_l ptr' = [2, l_list_l_max ppt])
          \<and> l_size_max ptr' = int (length (ptr_l ptr'))
          \<and> length (l_size_tt ptr') = nat (ppt_md_size ppt)
          \<and> (\<forall>row \<in> set (l_size_tt ptr'). \<forall>n \<in> set row. n \<le> l_size_max ptr'))
     \<and> (\<forall>index_md index_tt.
          0 \<le> index_md \<and> index_md < ppt_md_size ppt
          \<and> 0 \<le> index_tt \<and> index_tt < tt_size ptr ! nat index_md
          \<and> l_max_determined ppt ptr index_md index_tt
          \<and> l_list_type_l_max ppt ptr index_md index_tt 0 > l_list_l_max ppt
          \<longrightarrow> r = Inl L_max_exceeds_table)"
proof -
  let ?l_max = "l_list_l_max ppt"
  from l_list_fill_count[OF inc, of ?l_max] obtain ls where
    ls: "l_list_fill ppr ptr ?l_max = Some ls"
      "l_list_count ppr ptr ?l_max = Some (int (length ls))"
      "ls \<noteq> []" "hd ls = 2" "last ls = ?l_max" "2 \<le> ?l_max \<longrightarrow> sorted_wrt (<) ls"
    by blast
  from l_list_fill_below_two[OF inc, of ?l_max] ls(1)
  have short: "?l_max < 2 \<longrightarrow> ls = [2, ?l_max]" by simp
  let ?ptr = "ptr\<lparr>l_size_max := int (length ls), ptr_l := ls\<rparr>"
  let ?mds = "[0 .. ppt_md_size ppt - 1]"
  let ?loop = "l_list_md_loop ppt ?ptr ?mds (?l_max, [], [])"
  let ?r = "case ?loop of
              Inl e \<Rightarrow> Inl e
            | Inr (l_max, sizes, rows) \<Rightarrow> Inr (?ptr\<lparr>l_size := sizes, l_size_tt := rows\<rparr>)"
  have run: "transfer_get_l_list ppr ppt ptr = Some ?r"
    using ls(1,2) by (simp add: transfer_get_l_list_def Let_def split: sum.splits prod.splits)
  have nonempty: "ptr_l ?ptr \<noteq> []" and sz: "l_size_max ?ptr = int (length (ptr_l ?ptr))"
    using ls(3) by simp_all
  have good: "hd (ptr_l ptr') = 2 \<and> last (ptr_l ptr') = ?l_max
          \<and> (2 \<le> ?l_max \<longrightarrow> sorted_wrt (<) (ptr_l ptr'))
          \<and> (?l_max < 2 \<longrightarrow> ptr_l ptr' = [2, ?l_max])
          \<and> l_size_max ptr' = int (length (ptr_l ptr'))
          \<and> length (l_size_tt ptr') = nat (ppt_md_size ppt)
          \<and> (\<forall>row \<in> set (l_size_tt ptr'). \<forall>n \<in> set row. n \<le> l_size_max ptr')"
    if r: "?r = Inr ptr'" for ptr'
  proof -
    from r obtain lm sizes rows where
      loop: "?loop = Inr (lm, sizes, rows)"
      and ptr': "ptr' = ?ptr\<lparr>l_size := sizes, l_size_tt := rows\<rparr>"
      by (auto split: sum.splits prod.splits)
    have "\<forall>row \<in> set ([] :: int list list). \<forall>n \<in> set row. n \<le> l_size_max ?ptr" by simp
    from l_list_md_loop_rows[OF loop nonempty sz this]
    have rows: "\<forall>row \<in> set rows. \<forall>n \<in> set row. n \<le> int (length ls)"
      and len: "length rows = length ?mds" by simp_all
    have "length ?mds = nat (ppt_md_size ppt)" by simp
    with rows len ptr' ls short show ?thesis by simp
  qed
  have bad: "?r = Inl L_max_exceeds_table"
    if a: "0 \<le> index_md \<and> index_md < ppt_md_size ppt
          \<and> 0 \<le> index_tt \<and> index_tt < tt_size ptr ! nat index_md
          \<and> l_max_determined ppt ptr index_md index_tt
          \<and> l_list_type_l_max ppt ptr index_md index_tt 0 > ?l_max" for index_md index_tt
  proof -
    have md: "index_md \<in> set ?mds" using a by simp
    have tt: "index_tt \<in> set [0 .. tt_size ?ptr ! nat index_md - 1]" using a by simp
    have det: "l_max_determined ppt ?ptr index_md index_tt" using a by simp
    have "nat (int (length ls) - 1) = length ls - 1" by auto
    then have "ptr_l ?ptr ! nat (l_size_max ?ptr - 1) = last ls"
      using ls(3) by (simp add: last_conv_nth)
    with a ls(5) have big: "l_list_type_l_max ppt ?ptr index_md index_tt 0
                            > ptr_l ?ptr ! nat (l_size_max ?ptr - 1)" by simp
    from l_list_md_loop_fails[OF md tt det big] show ?thesis by simp
  qed
  from run good bad show ?thesis by blast
qed

text \<open>The theorem at \<open>ppr_ex\<close> and \<open>ptr_ex\<close>, where the linear step is 5. With the spectra of
  \<open>ppt_ex\<close> the list ends at 30 and the routine succeeds. With \<^verbatim>\<open>has_cls\<close> false the largest
  multipole stays 0, the list is 2, 0, and the lensing potential, which needs 30, makes the
  routine fail.\<close>

theorem transfer_get_l_list_grid_witness:
  "1 \<le> l_lin_increment ppr_ex ptr_ex
   \<and> l_list_l_max ppt_ex = 30
   \<and> transfer_get_l_list ppr_ex ppt_ex ptr_ex
       = Some (Inr (ptr_ex\<lparr>l_size_max := 8, ptr_l := [2, 4, 8, 13, 18, 23, 28, 30],
                            l_size := [8], l_size_tt := [[8]]\<rparr>))
   \<and> sorted_wrt (<) [2, 4, 8, 13, 18, 23, 28, 30 :: int]
   \<and> l_list_l_max (ppt_ex\<lparr>ppt_has_cls := False\<rparr>) = 0
   \<and> l_max_determined (ppt_ex\<lparr>ppt_has_cls := False\<rparr>) ptr_ex 0 0
   \<and> l_list_type_l_max (ppt_ex\<lparr>ppt_has_cls := False\<rparr>) ptr_ex 0 0 0 = 30
   \<and> transfer_get_l_list ppr_ex (ppt_ex\<lparr>ppt_has_cls := False\<rparr>) ptr_ex
       = Some (Inl L_max_exceeds_table)"
proof -
  let ?ppt = "ppt_ex\<lparr>ppt_has_cls := False\<rparr>"
  have inc: "1 \<le> l_lin_increment ppr_ex ptr_ex" by (simp add: l_lin_increment_ex)
  have l_max: "l_list_l_max ppt_ex = 30" "l_list_l_max ?ppt = 0"
    by (simp_all add: l_list_l_max_def ppt_ex_def)
  have det: "l_max_determined ?ppt ptr_ex 0 0"
    by (simp add: l_max_determined_def scalars_def is_lensing_def ppt_ex_def ptr_ex_def)
  have need: "l_list_type_l_max ?ppt ptr_ex 0 0 0 = 30"
    by (simp add: l_list_type_l_max_def scalars_def tensors_def
          is_temperature_def is_polarization_e_def is_lcmb_def is_density_def
          is_lensing_def ppt_ex_def ptr_ex_def)
  have range: "0 < ppt_md_size ?ppt" "0 < tt_size ptr_ex ! nat 0"
    by (simp_all add: ppt_ex_def ptr_ex_def)
  from transfer_get_l_list_grid[OF inc, of ?ppt] obtain r where
    r: "transfer_get_l_list ppr_ex ?ppt ptr_ex = Some r"
    and fails: "\<forall>index_md index_tt.
          0 \<le> index_md \<and> index_md < ppt_md_size ?ppt
          \<and> 0 \<le> index_tt \<and> index_tt < tt_size ptr_ex ! nat index_md
          \<and> l_max_determined ?ppt ptr_ex index_md index_tt
          \<and> l_list_type_l_max ?ppt ptr_ex index_md index_tt 0 > l_list_l_max ?ppt
          \<longrightarrow> r = Inl L_max_exceeds_table"
    by blast
  from fails[rule_format, of 0 0] range det need l_max(2)
  have "r = Inl L_max_exceeds_table" by simp
  with r have bad: "transfer_get_l_list ppr_ex ?ppt ptr_ex = Some (Inl L_max_exceeds_table)"
    by simp
  from transfer_get_l_list_grid[OF inc, of ppt_ex] transfer_get_l_list_ex
  have "sorted_wrt (<) [2, 4, 8, 13, 18, 23, 28, 30 :: int]"
    by (simp add: l_max)
  with inc l_max det need bad transfer_get_l_list_ex show ?thesis by simp
qed


text \<open>Against the claim as it was stated: the galaxy-lensing spectrum requested up to the
  multipole 1. The routine succeeds and the list is 2, 1, which is not increasing.\<close>

theorem transfer_get_l_list_not_increasing:
  "l_list_l_max (ppt_ex\<lparr>l_lss_max := 1\<rparr>) = 1
   \<and> 1 \<le> l_lin_increment ppr_ex ptr_ex
   \<and> transfer_get_l_list ppr_ex (ppt_ex\<lparr>l_lss_max := 1\<rparr>) ptr_ex
       = Some (Inr (ptr_ex\<lparr>l_size_max := 2, ptr_l := [2, 1], l_size := [2],
                            l_size_tt := [[2]]\<rparr>))
   \<and> \<not> sorted_wrt (<) [2, 1 :: int]"
proof -
  have l_max: "l_list_l_max (ppt_ex\<lparr>l_lss_max := 1\<rparr>) = 1"
    by (simp add: l_list_l_max_def ppt_ex_def)
  have lin: "real_of_int (l_linstep ppr_ex) * angular_rescaling ptr_ex = 5"
    by (simp add: ppr_ex_def ptr_ex_def)
  have fill1: "l_fill_log_loop ppr_ex ptr_ex 1 [2] = [2]"
    by (simp add: l_fill_log_loop.simps l_log_increment_ex lin)
  have count1: "l_count_log_loop ppr_ex ptr_ex 1 (0, 2) = (0, 2)"
    by (simp add: l_count_log_loop.simps l_log_increment_ex lin)
  have fill: "l_list_fill ppr_ex ptr_ex 1 = Some [2, 1]"
    by (simp add: l_list_fill_def fill1 l_lin_increment_ex l_fill_lin_loop.simps)
  have count: "l_list_count ppr_ex ptr_ex 1 = Some 2"
    by (simp add: l_list_count_def count1 l_lin_increment_ex l_count_lin_loop.simps)
  have run: "transfer_get_l_list ppr_ex (ppt_ex\<lparr>l_lss_max := 1\<rparr>) ptr_ex
       = Some (Inr (ptr_ex\<lparr>l_size_max := 2, ptr_l := [2, 1], l_size := [2],
                            l_size_tt := [[2]]\<rparr>))"
    by (simp add: transfer_get_l_list_def l_max fill count)
       (simp add: ppt_ex_def ptr_ex_def l_list_type_l_max_def scalars_def tensors_def
          is_temperature_def is_polarization_e_def is_lcmb_def is_density_def
          is_lensing_def upto.simps)
  from l_max run show ?thesis by (simp add: l_lin_increment_ex)
qed

end
